theory Spec2Isabelle
  imports Complex_Main "HOL-Library.Word" "HOL-Library.Log_Nat"
begin

section \<open>JavaScript values of the playground\<close>

text \<open>
  A JavaScript string is a sequence of UTF-16 code units; \<open>length\<close>, \<open>substring\<close>,
  \<open>selectionStart\<close> and \<open>selectionEnd\<close> all count code units. ASCII literals of the
  source are written \<open>js ''...''\<close>.
\<close>

type_synonym code_unit = "16 word"
type_synonym jsstring = "code_unit list"

definition code_unit_of :: "char \<Rightarrow> code_unit" where
  "code_unit_of c = of_nat (of_char c)"

definition js :: "string \<Rightarrow> jsstring" where
  "js s = map code_unit_of s"

text \<open>
  The values that reach the component state and the rendered children: strings,
  \<open>undefined\<close>, booleans, the function members of \<open>Object.prototype\<close> (named by their
  property name), \<open>Object.prototype\<close> itself, and the objects \<open>Object(v)\<close> makes of a
  string, a boolean and \<open>undefined\<close>.
\<close>

datatype jsval =
    JString jsstring
  | JUndefined
  | JBoolean bool
  | JFunction jsstring
  | JObjectPrototype
  | JStringObject jsstring
  | JBooleanObject bool
  | JEmptyObject

fun truthy :: "jsval \<Rightarrow> bool" where
  "truthy (JString s) = (s \<noteq> [])"
| "truthy JUndefined = False"
| "truthy (JBoolean b) = b"
| "truthy v = True"

fun is_Object :: "jsval \<Rightarrow> bool" where
  "is_Object (JString s) = False"
| "is_Object JUndefined = False"
| "is_Object (JBoolean b) = False"
| "is_Object v = True"

text \<open>
  An object literal \<open>{k1: v1, ...}\<close> with string values: its own properties in
  insertion order. Its prototype is \<open>Object.prototype\<close>, whose members are found by
  \<open>obj[key]\<close> when \<open>obj\<close> has no own property \<open>key\<close>: eleven functions, and the
  accessor \<open>__proto__\<close>, which gives the prototype of the object, \<open>Object.prototype\<close>.
\<close>

type_synonym jsobject = "(jsstring \<times> jsstring) list"

definition Object_prototype_functions :: "jsstring list" where
  "Object_prototype_functions =
     [js ''constructor'', js ''__defineGetter__'', js ''__defineSetter__'',
      js ''hasOwnProperty'', js ''__lookupGetter__'', js ''__lookupSetter__'',
      js ''isPrototypeOf'', js ''propertyIsEnumerable'', js ''toString'', js ''valueOf'',
      js ''toLocaleString'']"

definition js_get :: "jsobject \<Rightarrow> jsstring \<Rightarrow> jsval" where
  "js_get obj key =
     (case map_of obj key of
        Some v \<Rightarrow> JString v
      | None \<Rightarrow>
          if key \<in> set Object_prototype_functions then JFunction key
          else if key = js ''__proto__'' then JObjectPrototype
          else JUndefined)"

definition Object_keys :: "jsobject \<Rightarrow> jsstring list" where
  "Object_keys obj = map fst obj"

subsection \<open>String.prototype.substring\<close>

text \<open>
  \<open>s.substring(start, end)\<close>: both indices are clamped to the length and swapped when
  they come in the wrong order. The indices here are the textarea's \<open>selectionStart\<close> and
  \<open>selectionEnd\<close> (unsigned) or the literal 0. \<open>s.substring(start)\<close> runs to the end.
\<close>

definition substring :: "jsstring \<Rightarrow> nat \<Rightarrow> nat \<Rightarrow> jsstring" where
  "substring s intStart intEnd =
     (let len = length s;
          finalStart = min intStart len;
          finalEnd = min intEnd len;
          lo = min finalStart finalEnd;
          hi = max finalStart finalEnd
      in take (hi - lo) (drop lo s))"

definition substring_from :: "jsstring \<Rightarrow> nat \<Rightarrow> jsstring" where
  "substring_from s intStart = substring s intStart (length s)"

subsection \<open>Whitespace, trim and split\<close>

text \<open>
  The code units that \<open>String.prototype.trim\<close> strips and that the regular expression
  class \<open>\s\<close> matches: ECMAScript's WhiteSpace and LineTerminator productions
  (TAB, LF, VT, FF, CR, SP, NBSP, U+1680, U+2000 to U+200A, LS, PS, U+202F, U+205F,
  U+3000 and the byte order mark).
\<close>

definition isWhiteSpace :: "code_unit \<Rightarrow> bool" where
  "isWhiteSpace c \<longleftrightarrow>
     c \<in> set [0x0009, 0x000A, 0x000B, 0x000C, 0x000D, 0x0020, 0x00A0, 0x1680,
       0x2000, 0x2001, 0x2002, 0x2003, 0x2004, 0x2005, 0x2006, 0x2007, 0x2008, 0x2009,
       0x200A, 0x2028, 0x2029, 0x202F, 0x205F, 0x3000, 0xFEFF]"

definition trim :: "jsstring \<Rightarrow> jsstring" where
  "trim s = rev (dropWhile isWhiteSpace (rev (dropWhile isWhiteSpace s)))"

text \<open>
  \<open>s.split('\n')\<close>: search the next separator from the current position, emit the text
  before it, go on behind it; the rest of the string is the last piece. The empty string
  gives one empty piece.
\<close>

definition LF :: code_unit where
  "LF = 0x000A"

function split_newline :: "jsstring \<Rightarrow> jsstring list" where
  "split_newline s =
     (case dropWhile (\<lambda>c. c \<noteq> LF) s of
        [] \<Rightarrow> [s]
      | sep # rest \<Rightarrow> takeWhile (\<lambda>c. c \<noteq> LF) s # split_newline rest)"
  by pat_completeness auto
termination
proof (relation "measure length")
  fix s :: jsstring and sep rest
  assume "dropWhile (\<lambda>c. c \<noteq> LF) s = sep # rest"
  then have "length (sep # rest) \<le> length s"
    by (metis length_dropWhile_le)
  then show "(rest, s) \<in> measure length"
    by simp
qed simp

text \<open>
  \<open>s.split(/\s+/)\<close>: the first position where the expression matches is the first
  whitespace code unit; the text before it is a piece; the greedy match runs to the end of
  the whitespace run, and the search goes on behind it. What is left when no further match
  is found is the last piece (the empty string behind trailing whitespace, and for the
  empty input, which \<open>\s+\<close> does not match).
\<close>

function split_whitespace :: "jsstring \<Rightarrow> jsstring list" where
  "split_whitespace s =
     (case dropWhile (\<lambda>c. \<not> isWhiteSpace c) s of
        [] \<Rightarrow> [s]
      | w # rest \<Rightarrow>
          takeWhile (\<lambda>c. \<not> isWhiteSpace c) s # split_whitespace (dropWhile isWhiteSpace rest))"
  by pat_completeness auto
termination
proof (relation "measure length")
  fix s :: jsstring and w rest
  assume "dropWhile (\<lambda>c. \<not> isWhiteSpace c) s = w # rest"
  then have "length (w # rest) \<le> length s"
    by (metis length_dropWhile_le)
  moreover have "length (dropWhile isWhiteSpace rest) \<le> length rest"
    by (rule length_dropWhile_le)
  ultimately show "(dropWhile isWhiteSpace rest, s) \<in> measure length"
    by simp
qed simp

subsection \<open>Template literals\<close>

text \<open>
  A template literal without substitutions that spans several lines: its value is the
  lines joined with U+000A. The bundled examples are written line by line below, code
  units beyond ASCII as numbers.
\<close>

fun template_literal :: "jsstring list \<Rightarrow> jsstring" where
  "template_literal [] = []"
| "template_literal [l] = l"
| "template_literal (l # ls) = l @ LF # template_literal ls"

section \<open>examples.ts\<close>

definition EXAMPLES_counter :: jsstring where
  \<open>EXAMPLES_counter = template_literal
    [js ''page Counter:'',
     js ''  state count: int = 0'',
     js ''  derived doubled = count * 2'',
     js ''  derived isPositive = count > 0'',
     [],
     js ''  fn increment():'',
     js ''    count += 1'',
     [],
     js ''  fn decrement():'',
     js ''    count -= 1'',
     [],
     js ''  fn reset():'',
     js ''    count = 0'',
     [],
     js ''  layout col gap=16 padding=24 center:'',
     js ''    text "'' @ [0xCE74, 0xC6B4, 0xD130] @ js ''" size=2xl bold'',
     js ''    text "{count}" size=3xl bold color=#333'',
     js ''    text "'' @ [0xB450] @ js '' '' @ [0xBC30] @ js '': {doubled}" size=lg color=#666'',
     [],
     js ''    layout row gap=8:'',
     js ''      button "-1" style=danger -> decrement()'',
     js ''      button "'' @ [0xB9AC, 0xC14B] @ js ''" -> reset()'',
     js ''      button "+1" style=primary -> increment()'']\<close>

definition EXAMPLES_todo :: jsstring where
  \<open>EXAMPLES_todo = template_literal
    [js ''page Todo:'',
     js ''  type Item = {id: int, text: str, done: bool}'',
     [],
     js ''  state items: list[Item] = []'',
     js ''  state input: str = ""'',
     js ''  derived remaining = items.filter(i => !i.done).length'',
     [],
     js ''  check items.length <= 500 "'' @ [0xD560, 0xC77C, 0xC740] @ js '' 500'' @ [0xAC1C] @ js '' '' @ [0xC774, 0xD558] @ js ''"'',
     [],
     js ''  fn add():'',
     js ''    if input.trim() != "":'',
     js ''      items.push({id: Date.now(), text: input, done: false})'',
     js ''      input = ""'',
     [],
     js ''  fn remove(id: int):'',
     js ''    items = items.filter(i => i.id != id)'',
     [],
     js ''  layout col gap=16 padding=24 maxWidth=600 margin=auto:'',
     js ''    text "'' @ [0xD560] @ js '' '' @ [0xC77C] @ js '' ({remaining}'' @ [0xAC1C] @ js '' '' @ [0xB0A8, 0xC74C] @ js '')" size=2xl bold'',
     [],
     js ''    layout row gap=8:'',
     js ''      input input placeholder="'' @ [0xD560] @ js '' '' @ [0xC77C, 0xC744] @ js '' '' @ [0xC785, 0xB825, 0xD558, 0xC138, 0xC694] @ js ''"'',
     js ''      button "'' @ [0xCD94, 0xAC00] @ js ''" style=primary -> add()'',
     [],
     js ''    for item in items:'',
     js ''      layout row gap=8 center:'',
     js ''        toggle item.done'',
     js ''        text item.text strike={item.done} color={item.done ? "#999" : "#333"}'',
     js ''        button "'' @ [0xC0AD, 0xC81C] @ js ''" style=danger size=sm -> remove(item.id)'',
     [],
     js ''    if items.length == 0:'',
     js ''      text "'' @ [0xD560] @ js '' '' @ [0xC77C, 0xC774] @ js '' '' @ [0xC5C6, 0xC2B5, 0xB2C8, 0xB2E4] @ js ''" color=#999 center'']\<close>

definition EXAMPLES_chat :: jsstring where
  \<open>EXAMPLES_chat = template_literal
    [js ''page Chat:'',
     js ''  type Message = {id: int, text: str, sender: str, time: datetime}'',
     [],
     js ''  state messages: list[Message] = []'',
     js ''  state input: str = ""'',
     js ''  state username: str = "'' @ [0xB098] @ js ''"'',
     [],
     js ''  fn send():'',
     js ''    if input.trim() != "":'',
     js ''      messages.push({'',
     js ''        id: Date.now(),'',
     js ''        text: input,'',
     js ''        sender: username,'',
     js ''        time: now()'',
     js ''      })'',
     js ''      input = ""'',
     [],
     js ''  fn onKeyPress(key):'',
     js ''    if key == "Enter": send()'',
     [],
     js ''  layout col height=100vh:'',
     js ''    layout row center padding=16 bg=#075e54:'',
     js ''      text "'' @ [0xCC44, 0xD305, 0xBC29] @ js ''" size=lg bold color=white'',
     [],
     js ''    layout col gap=8 padding=16 scroll=y grow=1:'',
     js ''      for msg in messages:'',
     js ''        layout row:'',
     js ''          layout col padding=12 radius=12 maxWidth="70%" bg={msg.sender == username ? "#dcf8c6" : "white"} shadow=sm:'',
     js ''            text msg.text'',
     js ''            text msg.time.format("HH:mm") size=xs color=#999 end'',
     [],
     js ''    layout row gap=8 padding=16 bg=#f0f0f0:'',
     js ''      input input placeholder="'' @ [0xBA54, 0xC2DC, 0xC9C0] @ js '' '' @ [0xC785, 0xB825] @ js ''..."'',
     js ''      button "'' @ [0xC804, 0xC1A1] @ js ''" style=primary -> send()'']\<close>

definition EXAMPLES_dashboard :: jsstring where
  \<open>EXAMPLES_dashboard = template_literal
    [js ''page Dashboard:'',
     js ''  type Metric = {label: str, value: float, change: float}'',
     [],
     js ''  state metrics: list[Metric] = []'',
     js ''  state period: str = "week"'',
     js ''  state loading: bool = true'',
     [],
     js ''  api getMetrics = GET "/api/metrics"'',
     [],
     js ''  on mount:'',
     js ''    metrics = await getMetrics(period: period)'',
     js ''    loading = false'',
     [],
     js ''  watch period:'',
     js ''    loading = true'',
     js ''    metrics = await getMetrics(period: period)'',
     js ''    loading = false'',
     [],
     js ''  layout col gap=24 padding=32:'',
     js ''    layout row between center:'',
     js ''      text "'' @ [0xB300, 0xC2DC, 0xBCF4, 0xB4DC] @ js ''" size=3xl bold'',
     js ''      select period options=["day", "week", "month", "year"]'',
     [],
     js ''    if loading:'',
     js ''      text "'' @ [0xB85C, 0xB529] @ js '' '' @ [0xC911] @ js ''..." center'',
     js ''    else:'',
     js ''      layout grid cols=3 gap=16:'',
     js ''        for metric in metrics:'',
     js ''          component MetricCard(metric)'',
     [],
     js ''component MetricCard:'',
     js ''  prop metric: Metric'',
     [],
     js ''  derived isPositive = metric.change >= 0'',
     js ''  derived arrow = isPositive ? "'' @ [0x2191] @ js ''" : "'' @ [0x2193] @ js ''"'',
     js ''  derived changeColor = isPositive ? "green" : "red"'',
     [],
     js ''  style card:'',
     js ''    padding: 24'',
     js ''    radius: 12'',
     js ''    shadow: md'',
     js ''    bg: white'',
     [],
     js ''  layout col gap=8 .card:'',
     js ''    text metric.label size=sm color=#666'',
     js ''    text "{metric.value}" size=2xl bold'',
     js ''    text "{arrow} {metric.change}%" size=sm color={changeColor}'']\<close>

definition EXAMPLES_ecommerce :: jsstring where
  \<open>EXAMPLES_ecommerce = template_literal
    [js ''page Shop:'',
     js ''  type Product = {id: int, name: str, price: float, image: str}'',
     js ''  type CartItem = {product: Product, qty: int}'',
     [],
     js ''  state products: list[Product] = []'',
     js ''  state cart: list[CartItem] = []'',
     js ''  state search: str = ""'',
     js ''  state loading: bool = true'',
     [],
     js ''  derived filteredProducts = products.filter(p => p.name.includes(search))'',
     js ''  derived cartTotal = cart.reduce((sum, item) => sum + item.product.price * item.qty, 0)'',
     js ''  derived cartCount = cart.reduce((sum, item) => sum + item.qty, 0)'',
     [],
     js ''  check cart.length <= 100 "'' @ [0xC7A5, 0xBC14, 0xAD6C, 0xB2C8, 0xB294] @ js '' 100'' @ [0xAC1C] @ js '' '' @ [0xC774, 0xD558] @ js ''"'',
     js ''  check cartTotal >= 0 "'' @ [0xCD1D, 0xC561, 0xC740] @ js '' '' @ [0xC74C, 0xC218] @ js '' '' @ [0xBD88, 0xAC00] @ js ''"'',
     [],
     js ''  api getProducts = GET "/api/products"'',
     [],
     js ''  on mount:'',
     js ''    products = await getProducts()'',
     js ''    loading = false'',
     [],
     js ''  fn addToCart(product: Product):'',
     js ''    existing = cart.find(item => item.product.id == product.id)'',
     js ''    if existing:'',
     js ''      existing.qty += 1'',
     js ''    else:'',
     js ''      cart.push({product: product, qty: 1})'',
     [],
     js ''  fn removeFromCart(productId: int):'',
     js ''    cart = cart.filter(item => item.product.id != productId)'',
     [],
     js ''  layout col gap=24 padding=32:'',
     js ''    layout row between center:'',
     js ''      text "'' @ [0xC1FC, 0xD551, 0xBAB0] @ js ''" size=3xl bold'',
     js ''      layout row gap=8 center:'',
     js ''        text "'' @ [0xC7A5, 0xBC14, 0xAD6C, 0xB2C8] @ js '' ({cartCount})" size=lg'',
     js ''        text "'' @ [0x20A9] @ js ''{cartTotal}" size=lg bold color=#e74c3c'',
     [],
     js ''    input search placeholder="'' @ [0xC0C1, 0xD488] @ js '' '' @ [0xAC80, 0xC0C9] @ js ''..."'',
     [],
     js ''    if loading:'',
     js ''      text "'' @ [0xB85C, 0xB529] @ js '' '' @ [0xC911] @ js ''..." center'',
     js ''    else:'',
     js ''      layout grid cols=3 gap=16:'',
     js ''        for product in filteredProducts:'',
     js ''          layout col gap=8 padding=16 radius=12 shadow=md bg=white:'',
     js ''            image product.image width="100%" height=200'',
     js ''            text product.name size=lg bold'',
     js ''            text "'' @ [0x20A9] @ js ''{product.price}" size=md color=#e74c3c'',
     js ''            button "'' @ [0xC7A5, 0xBC14, 0xAD6C, 0xB2C8] @ js '' '' @ [0xB2F4, 0xAE30] @ js ''" style=primary -> addToCart(product)'']\<close>

definition EXAMPLES_model_crud :: jsstring where
  \<open>EXAMPLES_model_crud = template_literal
    [js ''model Product:'',
     js ''  name: str'',
     js ''  price: float'',
     js ''  category: str'',
     js ''  createdAt: datetime = now()'',
     [],
     js ''  validate:'',
     js ''    name.length >= 2 "'' @ [0xC774, 0xB984, 0xC740] @ js '' 2'' @ [0xC790] @ js '' '' @ [0xC774, 0xC0C1] @ js ''"'',
     js ''    price > 0 "'' @ [0xAC00, 0xACA9, 0xC740] @ js '' '' @ [0xC591, 0xC218] @ js ''"'',
     [],
     js ''  permission:'',
     js ''    read: all'',
     js ''    write: auth'',
     js ''    delete: admin'',
     [],
     js ''  search: name, category'',
     js ''  sort: price, createdAt'',
     js ''  filter: category'',
     [],
     js ''page ProductList:'',
     js ''  data products = fetch("/api/products"):'',
     js ''    loading: "'' @ [0xB85C, 0xB529] @ js '' '' @ [0xC911] @ js ''..."'',
     js ''    error: "'' @ [0xC0C1, 0xD488, 0xC744] @ js '' '' @ [0xBD88, 0xB7EC, 0xC62C] @ js '' '' @ [0xC218] @ js '' '' @ [0xC5C6, 0xC2B5, 0xB2C8, 0xB2E4] @ js ''"'',
     js ''    empty: "'' @ [0xB4F1, 0xB85D, 0xB41C] @ js '' '' @ [0xC0C1, 0xD488, 0xC774] @ js '' '' @ [0xC5C6, 0xC2B5, 0xB2C8, 0xB2E4] @ js ''"'',
     [],
     js ''  layout col gap=16 padding=24:'',
     js ''    text "'' @ [0xC0C1, 0xD488] @ js '' '' @ [0xAD00, 0xB9AC] @ js ''" size=2xl bold'',
     [],
     js ''    table products:'',
     js ''      columns:'',
     js ''        select'',
     js ''        column "'' @ [0xC0C1, 0xD488, 0xBA85] @ js ''" name sortable searchable'',
     js ''        column "'' @ [0xAC00, 0xACA9] @ js ''" price sortable'',
     js ''        column "'' @ [0xCE74, 0xD14C, 0xACE0, 0xB9AC] @ js ''" category filterable'',
     js ''        actions: [edit, delete]'',
     js ''      features:'',
     js ''        pagination: 20'']\<close>

definition EXAMPLES_auth_dashboard :: jsstring where
  \<open>EXAMPLES_auth_dashboard = template_literal
    [js ''auth provider="supabase":'',
     js ''  login: email, password'',
     js ''  signup: email, password, name'',
     js ''  logout'',
     js ''  guard: auth -> redirect("/login")'',
     js ''  guard: admin -> redirect("/")'',
     [],
     js ''route "/dashboard":'',
     js ''  page Dashboard'',
     js ''  guard: auth'',
     [],
     js ''page Dashboard:'',
     js ''  state revenue: int = 0'',
     js ''  state sales: list = []'',
     [],
     js ''  nav:'',
     js ''    link "'' @ [0xB300, 0xC2DC, 0xBCF4, 0xB4DC] @ js ''" href="/"'',
     js ''    link "'' @ [0xC0C1, 0xD488] @ js ''" href="/products"'',
     js ''    link "'' @ [0xC124, 0xC815] @ js ''" href="/settings"'',
     [],
     js ''  chart bar salesChart:'',
     js ''    data: sales'',
     js ''    x: month'',
     js ''    y: revenue'',
     js ''    title: "'' @ [0xC6D4, 0xBCC4] @ js '' '' @ [0xB9E4, 0xCD9C] @ js ''"'',
     [],
     js ''  layout row:'',
     js ''    stat "'' @ [0xCD1D] @ js '' '' @ [0xB9E4, 0xCD9C] @ js ''" value=revenue change="+12%"'',
     js ''    stat "'' @ [0xC8FC, 0xBB38] @ js '' '' @ [0xC218] @ js ''" value=42'']\<close>

definition EXAMPLES_realtime_chat :: jsstring where
  \<open>EXAMPLES_realtime_chat = template_literal
    [js ''page ChatRoom:'',
     js ''  state messages: list = []'',
     js ''  state input: str = ""'',
     [],
     js ''  realtime ws = subscribe("wss://chat.example.com"):'',
     js ''    on message:'',
     js ''      messages.push(message)'',
     js ''    on error:'',
     js ''      console.log("'' @ [0xC5F0, 0xACB0] @ js '' '' @ [0xB04A, 0xAE40] @ js ''")'',
     [],
     js ''  layout col:'',
     js ''    text "'' @ [0xC2E4, 0xC2DC, 0xAC04] @ js '' '' @ [0xCC44, 0xD305] @ js ''" size=2xl bold'',
     [],
     js ''    layout col gap=8 scroll=y:'',
     js ''      for msg in messages:'',
     js ''        text msg.text'',
     [],
     js ''    layout row gap=8:'',
     js ''      input input placeholder="'' @ [0xBA54, 0xC2DC, 0xC9C0] @ js '' '' @ [0xC785, 0xB825] @ js ''..."'',
     js ''      button "'' @ [0xC804, 0xC1A1] @ js ''" style=primary -> ws.send(input)'']\<close>

definition EXAMPLES_upload_modal :: jsstring where
  \<open>EXAMPLES_upload_modal = template_literal
    [js ''page Profile:'',
     js ''  upload avatar:'',
     js ''    accept: "image/*"'',
     js ''    maxSize: 5'',
     js ''    preview: true'',
     [],
     js ''  modal editDialog title="'' @ [0xD504, 0xB85C, 0xD544] @ js '' '' @ [0xD3B8, 0xC9D1] @ js ''" trigger="'' @ [0xD3B8, 0xC9D1] @ js ''":'',
     js ''    text "'' @ [0xD504, 0xB85C, 0xD544] @ js '' '' @ [0xC815, 0xBCF4, 0xB97C] @ js '' '' @ [0xC218, 0xC815, 0xD558, 0xC138, 0xC694] @ js ''"'',
     js ''    button "'' @ [0xC800, 0xC7A5] @ js ''" style=primary -> save()'',
     [],
     js ''  layout col gap=16 padding=24:'',
     js ''    text "'' @ [0xD504, 0xB85C, 0xD544] @ js ''" size=2xl bold'',
     js ''    toast "'' @ [0xC800, 0xC7A5] @ js '' '' @ [0xC644, 0xB8CC] @ js ''!" type=success duration=3000'']\<close>

definition EXAMPLES_landing_page :: jsstring where
  \<open>EXAMPLES_landing_page = template_literal
    [js ''page Landing:'',
     js ''  seo:'',
     js ''    title: "0x - AI '' @ [0xD37C, 0xC2A4, 0xD2B8] @ js '' '' @ [0xC5B8, 0xC5B4] @ js ''"'',
     js ''    description: "AI'' @ [0xB85C] @ js '' '' @ [0xB354] @ js '' '' @ [0xBE60, 0xB974, 0xAC8C] @ js '' '' @ [0xC6F9, 0xC571] @ js '' '' @ [0xAC1C, 0xBC1C] @ js ''"'',
     [],
     js ''  nav:'',
     js ''    link "'' @ [0xD648] @ js ''" href="/"'',
     js ''    link "'' @ [0xAE30, 0xB2A5] @ js ''" href="#features"'',
     js ''    link "'' @ [0xAC00, 0xACA9] @ js ''" href="#pricing"'',
     [],
     js ''  hero:'',
     js ''    text "0x" size=3xl bold'',
     js ''    text "AI'' @ [0xB85C] @ js '' '' @ [0xB354] @ js '' '' @ [0xBE60, 0xB974, 0xAC8C] @ js '' '' @ [0xAC1C, 0xBC1C, 0xD558, 0xC138, 0xC694] @ js ''" size=xl'',
     js ''    button "'' @ [0xC2DC, 0xC791, 0xD558, 0xAE30] @ js ''" style=primary -> navigate("/start")'',
     [],
     js ''  layout col:'',
     js ''    text "Welcome" size=2xl'']\<close>

definition EXAMPLES_admin_crud :: jsstring where
  \<open>EXAMPLES_admin_crud = template_literal
    [js ''roles:'',
     js ''  admin:'',
     js ''    can: read, write, delete'',
     js ''  editor:'',
     js ''    can: read, write'',
     [],
     js ''page Admin:'',
     js ''  crud Product:'',
     js ''    text "'' @ [0xC0C1, 0xD488] @ js '' '' @ [0xAD00, 0xB9AC] @ js ''"'',
     [],
     js ''  layout col gap=16 padding=24:'',
     js ''    stats 3:'',
     js ''      stat "'' @ [0xB9E4, 0xCD9C] @ js ''" value=revenue'',
     js ''      stat "'' @ [0xC8FC, 0xBB38] @ js ''" value=orders'',
     js ''    breadcrumb auto'',
     js ''    text "'' @ [0xAD00, 0xB9AC, 0xC790] @ js '' '' @ [0xD328, 0xB110] @ js ''" size=2xl bold'']\<close>

definition EXAMPLES_interactive :: jsstring where
  \<open>EXAMPLES_interactive = template_literal
    [js ''page Interactive:'',
     js ''  state post: str = ""'',
     js ''  state images: list = []'',
     [],
     js ''  layout col gap=16 padding=24:'',
     js ''    animate enter:'',
     js ''      text "'' @ [0xC560, 0xB2C8, 0xBA54, 0xC774, 0xC158] @ js '' '' @ [0xD6A8, 0xACFC] @ js ''" size=2xl bold'',
     [],
     js ''    mobile show:'',
     js ''      text "'' @ [0xBAA8, 0xBC14, 0xC77C] @ js '' '' @ [0xC804, 0xC6A9] @ js '' '' @ [0xCEE8, 0xD150, 0xCE20] @ js ''"'',
     [],
     js ''    drawer sidebar:'',
     js ''      text "'' @ [0xC0AC, 0xC774, 0xB4DC, 0xBC14] @ js '' '' @ [0xBA54, 0xB274] @ js ''"'',
     [],
     js ''    search global products:'',
     js ''      text "'' @ [0xAC80, 0xC0C9] @ js '' '' @ [0xACB0, 0xACFC] @ js ''"'',
     [],
     js ''    social like post:'',
     js ''      text "'' @ [0xC88B, 0xC544, 0xC694] @ js ''"'',
     [],
     js ''    pay checkout:'',
     js ''      text "'' @ [0xACB0, 0xC81C] @ js ''"'',
     [],
     js ''    media gallery images cols=3'',
     [],
     js ''    confirm "'' @ [0xC815, 0xB9D0] @ js '' '' @ [0xC0AD, 0xC81C, 0xD558, 0xC2DC, 0xACA0, 0xC2B5, 0xB2C8, 0xAE4C] @ js ''?" danger confirm="'' @ [0xC0AD, 0xC81C] @ js ''" cancel="'' @ [0xCDE8, 0xC18C] @ js ''"'']\<close>

definition EXAMPLES_form_validation :: jsstring where
  \<open>EXAMPLES_form_validation = template_literal
    [js ''page Contact:'',
     js ''  form contactForm:'',
     js ''    field name: str'',
     js ''      label: "'' @ [0xC774, 0xB984] @ js ''"'',
     js ''      required: "'' @ [0xC774, 0xB984, 0xC744] @ js '' '' @ [0xC785, 0xB825, 0xD558, 0xC138, 0xC694] @ js ''"'',
     js ''      min: 2 "2'' @ [0xC790] @ js '' '' @ [0xC774, 0xC0C1] @ js '' '' @ [0xC785, 0xB825] @ js ''"'',
     [],
     js ''    field email: str'',
     js ''      label: "'' @ [0xC774, 0xBA54, 0xC77C] @ js ''"'',
     js ''      format: email "'' @ [0xC62C, 0xBC14, 0xB978] @ js '' '' @ [0xC774, 0xBA54, 0xC77C] @ js '' '' @ [0xD615, 0xC2DD, 0xC774] @ js '' '' @ [0xC544, 0xB2D9, 0xB2C8, 0xB2E4] @ js ''"'',
     [],
     js ''    field phone: str'',
     js ''      label: "'' @ [0xC804, 0xD654, 0xBC88, 0xD638] @ js ''"'',
     js ''      pattern: "^01[0-9]{8,9}$" "'' @ [0xC62C, 0xBC14, 0xB978] @ js '' '' @ [0xC804, 0xD654, 0xBC88, 0xD638] @ js '' '' @ [0xD615, 0xC2DD] @ js ''"'',
     [],
     js ''    field message: str'',
     js ''      label: "'' @ [0xBA54, 0xC2DC, 0xC9C0] @ js ''"'',
     js ''      max: 500 "500'' @ [0xC790] @ js '' '' @ [0xC774, 0xD558] @ js ''"'',
     [],
     js ''    submit "'' @ [0xBCF4, 0xB0B4, 0xAE30] @ js ''" -> api.sendContact(contactForm.data):'',
     js ''      success: toast("'' @ [0xC804, 0xC1A1] @ js '' '' @ [0xC644, 0xB8CC] @ js ''!")'',
     js ''      error: toast("'' @ [0xC804, 0xC1A1] @ js '' '' @ [0xC2E4, 0xD328] @ js ''")'',
     [],
     js ''  layout col gap=16 padding=24 center:'',
     js ''    text "'' @ [0xBB38, 0xC758, 0xD558, 0xAE30] @ js ''" size=2xl bold'',
     js ''    text "'' @ [0xC544, 0xB798] @ js '' '' @ [0xC591, 0xC2DD, 0xC744] @ js '' '' @ [0xC791, 0xC131, 0xD574, 0xC8FC, 0xC138, 0xC694] @ js ''" color=#666'']\<close>

definition EXAMPLES :: jsobject where
  "EXAMPLES =
     [(js ''counter'', EXAMPLES_counter),
      (js ''todo'', EXAMPLES_todo),
      (js ''chat'', EXAMPLES_chat),
      (js ''dashboard'', EXAMPLES_dashboard),
      (js ''ecommerce'', EXAMPLES_ecommerce),
      (js ''model_crud'', EXAMPLES_model_crud),
      (js ''auth_dashboard'', EXAMPLES_auth_dashboard),
      (js ''realtime_chat'', EXAMPLES_realtime_chat),
      (js ''upload_modal'', EXAMPLES_upload_modal),
      (js ''landing_page'', EXAMPLES_landing_page),
      (js ''admin_crud'', EXAMPLES_admin_crud),
      (js ''interactive'', EXAMPLES_interactive),
      (js ''form_validation'', EXAMPLES_form_validation)]"

definition EXAMPLE_NAMES :: jsobject where
  "EXAMPLE_NAMES =
     [(js ''counter'', [0xCE74, 0xC6B4, 0xD130]),
      (js ''todo'', [0xD560] @ js '' '' @ [0xC77C] @ js '' '' @ [0xBAA9, 0xB85D]),
      (js ''chat'', [0xCC44, 0xD305]),
      (js ''dashboard'', [0xB300, 0xC2DC, 0xBCF4, 0xB4DC]),
      (js ''ecommerce'', [0xC1FC, 0xD551, 0xBAB0]),
      (js ''model_crud'', js ''Model+CRUD''),
      (js ''form_validation'', js ''Form '' @ [0xAC80, 0xC99D]),
      (js ''auth_dashboard'', [0xC778, 0xC99D] @ js ''+'' @ [0xB300, 0xC2DC, 0xBCF4, 0xB4DC]),
      (js ''realtime_chat'', [0xC2E4, 0xC2DC, 0xAC04] @ js '' '' @ [0xCC44, 0xD305]),
      (js ''upload_modal'', [0xC5C5, 0xB85C, 0xB4DC] @ js ''+'' @ [0xBAA8, 0xB2EC]),
      (js ''landing_page'', [0xB79C, 0xB529] @ js '' '' @ [0xD398, 0xC774, 0xC9C0]),
      (js ''admin_crud'', [0xAD00, 0xB9AC, 0xC790] @ js ''+CRUD''),
      (js ''interactive'', [0xC778, 0xD130, 0xB799, 0xD2F0, 0xBE0C])]"

section \<open>App.tsx\<close>

definition TARGET_LABELS :: jsobject where
  "TARGET_LABELS =
     [(js ''react'', js ''React''),
      (js ''vue'', js ''Vue 3''),
      (js ''svelte'', js ''Svelte 5'')]"

definition TARGET_EXT :: jsobject where
  "TARGET_EXT =
     [(js ''react'', js ''.jsx''),
      (js ''vue'', js ''.vue''),
      (js ''svelte'', js ''.svelte'')]"

subsection \<open>The imported compiler\<close>

text \<open>
  \<open>compile\<close> comes from the package \<open>0x-lang/compiler\<close>; the playground only calls it.
  It is a parameter of the model: a call \<open>compile(src, {target, validate})\<close> either
  returns \<open>{code, lineCount, tokenCount}\<close> or throws. Of a thrown value the playground
  reads \<open>e.message\<close> (absent on values that are no error objects) and \<open>String(e)\<close>;
  the compiler's interface is to throw one error object that carries a message, so
  \<open>null\<close> and \<open>undefined\<close>, which have no properties to read, are not among the
  thrown values.
\<close>

record compile_result =
  code :: jsstring
  lineCount :: int
  tokenCount :: int

record thrown =
  message :: "jsstring option"
  String :: jsstring

type_synonym compiler = "jsval \<Rightarrow> jsstring \<Rightarrow> bool \<Rightarrow> thrown + compile_result"

text \<open>
  Two compilers to run the playground on: one that throws the same value on every call
  and one that returns the same result.
\<close>

definition throwing :: "thrown \<Rightarrow> compiler" where
  "throwing e src tgt validate = Inl e"

definition returning :: "compile_result \<Rightarrow> compiler" where
  "returning r src tgt validate = Inr r"

section \<open>The state of the App component\<close>

record stats =
  lines :: int
  tokens :: int
  srcLines :: int
  srcTokens :: int

text \<open>
  The four statistics are JavaScript numbers that hold integers (counts). \<open>source\<close> is
  typed \<open>string\<close> in the source, but \<open>handleExampleChange\<close> passes whatever
  \<open>EXAMPLES[name]\<close> evaluates to on to \<open>setSource\<close>, so the field holds a \<open>jsval\<close>.
  \<open>target\<close> is typed \<open>Target\<close>; at run time it is the string that was stored.
\<close>

record app_state =
  source :: jsval
  target :: jsstring
  "output" :: jsstring
  error :: jsstring
  stats :: stats
  selectedExample :: jsstring
  copied :: bool

record textarea =
  ta_value :: jsstring
  selectionStart :: nat
  selectionEnd :: nat

definition no_stats :: stats where
  "no_stats = \<lparr>lines = 0, tokens = 0, srcLines = 0, srcTokens = 0\<rparr>"

text \<open>The state of the first render: the arguments of the \<open>useState\<close> calls.\<close>

definition initial :: app_state where
  "initial =
     \<lparr>source = js_get EXAMPLES (js ''counter''),
      target = js ''react'',
      output = [],
      error = [],
      stats = no_stats,
      selectedExample = js ''counter'',
      copied = False\<rparr>"

subsection \<open>doCompile\<close>

text \<open>
  \<open>e.message || String(e)\<close>: the message when it is a non-empty string, the string
  conversion of the thrown value otherwise.
\<close>

definition error_text :: "thrown \<Rightarrow> jsstring" where
  "error_text e =
     (case message e of
        Some m \<Rightarrow> if m \<noteq> [] then m else String e
      | None \<Rightarrow> String e)"

definition catch :: "thrown \<Rightarrow> app_state \<Rightarrow> app_state" where
  "catch e st = st\<lparr>output := [], error := error_text e, stats := no_stats\<rparr>"

text \<open>
  \<open>src.split\<close> finds \<open>String.prototype.split\<close> on a string and on a String object; on
  any other value it throws a TypeError inside the \<open>try\<close> block (the wording is V8's).
\<close>

fun string_of_source :: "jsval \<Rightarrow> jsstring option" where
  "string_of_source (JString s) = Some s"
| "string_of_source (JStringObject s) = Some s"
| "string_of_source v = None"

fun split_TypeError :: "jsval \<Rightarrow> thrown" where
  "split_TypeError JUndefined =
     \<lparr>message = Some (js ''Cannot read properties of undefined (reading 'split')''),
      String = js ''TypeError: Cannot read properties of undefined (reading 'split')''\<rparr>"
| "split_TypeError v =
     \<lparr>message = Some (js ''src.split is not a function''),
      String = js ''TypeError: src.split is not a function''\<rparr>"

definition doCompile :: "compiler \<Rightarrow> jsval \<Rightarrow> jsstring \<Rightarrow> app_state \<Rightarrow> app_state" where
  "doCompile compile src tgt st =
     (case compile src tgt True of
        Inr result \<Rightarrow>
          (case string_of_source src of
             Some s \<Rightarrow>
               st\<lparr>output := code result,
                  error := [],
                  stats :=
                    \<lparr>lines = lineCount result,
                     tokens = tokenCount result,
                     srcLines = int (length (filter (\<lambda>l. trim l \<noteq> []) (split_newline s))),
                     srcTokens = int (length (filter (\<lambda>t. t \<noteq> []) (split_whitespace s)))\<rparr>\<rparr>
           | None \<Rightarrow> catch (split_TypeError src) st)
      | Inl e \<Rightarrow> catch e st)"

text \<open>
  \<open>useEffect(() => doCompile(source, target), [source, target, doCompile])\<close>: after a
  render in which \<open>source\<close> or \<open>target\<close> differs from the previous render, the
  component compiles again.
\<close>

definition compile_effect :: "compiler \<Rightarrow> app_state \<Rightarrow> app_state \<Rightarrow> app_state" where
  "compile_effect compile prev st =
     (if source st \<noteq> source prev \<or> target st \<noteq> target prev
      then doCompile compile (source st) (target st) st
      else st)"

subsection \<open>Number arithmetic\<close>

text \<open>
  JavaScript numbers are IEEE 754 binary64 values, and \<open>/\<close>, \<open>-\<close> and \<open>*\<close> give the
  exact result rounded to the nearest binary64 value, ties to the even significand. A
  finite number is represented by the rational it denotes.

  \<open>floor_log2 x\<close> is the exponent of a positive rational: the \<open>e\<close> with
  \<open>2^e \<le> x < 2^(e+1)\<close>. \<open>binary64 x\<close> rounds \<open>x\<close>: the significand has 53 bits, so the
  spacing of the values around \<open>x\<close> is \<open>2^(e-52)\<close>, with the exponent held at \<open>-1022\<close> in
  the subnormal range. The result is an infinity when the exponent is above 1023, or is
  1023 and the significand rounds up to \<open>2^53\<close>: when the rounded magnitude reaches
  \<open>2^1024\<close>.
\<close>

datatype number = Num rat | PosInfinity | NegInfinity

definition floor_log2 :: "rat \<Rightarrow> int" where
  "floor_log2 x =
     (let d = bitlen (fst (quotient_of x)) - bitlen (snd (quotient_of x))
      in if 2 powi d \<le> x then d else d - 1)"

definition round_half_even :: "rat \<Rightarrow> int" where
  "round_half_even r =
     (let f = \<lfloor>r\<rfloor>; d = r - of_int f
      in if d < 1 / 2 then f
         else if d > 1 / 2 then f + 1
         else if even f then f else f + 1)"

definition binary64 :: "rat \<Rightarrow> number" where
  "binary64 x =
     (if x = 0 then Num 0
      else
        (let e = max (floor_log2 \<bar>x\<bar>) (- 1022);
             ulp = 2 powi (e - 52);
             n = round_half_even (\<bar>x\<bar> / ulp)
         in if 1023 < e \<or> e = 1023 \<and> 2 ^ 53 \<le> n
            then (if 0 < x then PosInfinity else NegInfinity)
            else Num (sgn x * (of_int n * ulp))))"

text \<open>
  \<open>a / b\<close> on two integers. JavaScript does not throw on a zero divisor (it gives an
  infinity or NaN); the model marks that evaluation as \<open>DivisionByZero\<close>.
\<close>

datatype arith_fault = DivisionByZero

definition divide_js :: "int \<Rightarrow> int \<Rightarrow> arith_fault + number" where
  "divide_js a b = (if b = 0 then Inl DivisionByZero else Inr (binary64 (of_int a / of_int b)))"

text \<open>\<open>1 - x\<close>, \<open>x * 100\<close> and \<open>Math.round(x)\<close> (to the nearest integer, halves up).\<close>

fun one_minus :: "number \<Rightarrow> number" where
  "one_minus (Num q) = binary64 (1 - q)"
| "one_minus PosInfinity = NegInfinity"
| "one_minus NegInfinity = PosInfinity"

fun times_100 :: "number \<Rightarrow> number" where
  "times_100 (Num q) = binary64 (q * 100)"
| "times_100 PosInfinity = PosInfinity"
| "times_100 NegInfinity = NegInfinity"

fun Math_round :: "number \<Rightarrow> number" where
  "Math_round (Num q) = Num (of_int \<lfloor>q + 1 / 2\<rfloor>)"
| "Math_round PosInfinity = PosInfinity"
| "Math_round NegInfinity = NegInfinity"

subsection \<open>The savings figure\<close>

text \<open>
  \<open>Math.round((1 - stats.srcTokens / stats.tokens) * 100)\<close>, guarded by
  \<open>stats.srcTokens > 0\<close>. \<open>percentage a b\<close> is the arithmetic on the numerator \<open>a\<close>
  and the divisor \<open>b\<close>.
\<close>

definition percentage :: "int \<Rightarrow> int \<Rightarrow> arith_fault + number" where
  "percentage a b =
     (case divide_js a b of
        Inl fault \<Rightarrow> Inl fault
      | Inr q \<Rightarrow> Inr (Math_round (times_100 (one_minus q))))"

definition savings :: "stats \<Rightarrow> arith_fault + number" where
  "savings s = (if srcTokens s > 0 then percentage (srcTokens s) (tokens s) else Inr (Num 0))"

subsection \<open>Event handlers\<close>

text \<open>
  A state setter of \<open>useState\<close> called with a function takes it for an updater: the next
  state is the function applied to the previous state, as a plain call (\<open>this\<close> is
  \<open>undefined\<close>). The functions that can arrive here are the members of
  \<open>Object.prototype\<close>: \<open>Object(v)\<close> wraps a primitive, makes a new object of
  \<open>undefined\<close> and returns an object as it is; \<open>toString\<close> gives
  \<open>[object Undefined]\<close>; \<open>isPrototypeOf(v)\<close> gives \<open>false\<close> for a primitive \<open>v\<close>; every
  other call converts \<open>this\<close> to an object and throws a TypeError.
\<close>

datatype type_error = TypeError

definition call_updater :: "jsstring \<Rightarrow> jsval \<Rightarrow> type_error + jsval" where
  "call_updater f prev =
     (if f = js ''constructor'' then
        Inr (case prev of
               JUndefined \<Rightarrow> JEmptyObject
             | JString s \<Rightarrow> JStringObject s
             | JBoolean b \<Rightarrow> JBooleanObject b
             | v \<Rightarrow> v)
      else if f = js ''toString'' then Inr (JString (js ''[object Undefined]''))
      else if f = js ''isPrototypeOf'' \<and> \<not> is_Object prev then Inr (JBoolean False)
      else Inl TypeError)"

text \<open>
  \<open>basicStateReducer\<close>. An updater that throws leaves the update pending, and the render
  that applies it fails (see \<open>renders\<close>); the model keeps the updater in the field.
\<close>

definition basicStateReducer :: "jsval \<Rightarrow> jsval \<Rightarrow> jsval" where
  "basicStateReducer prev action =
     (case action of
        JFunction f \<Rightarrow> (case call_updater f prev of Inr v \<Rightarrow> v | Inl err \<Rightarrow> JFunction f)
      | v \<Rightarrow> v)"

definition handleExampleChange :: "jsstring \<Rightarrow> app_state \<Rightarrow> app_state" where
  "handleExampleChange name st =
     st\<lparr>selectedExample := name,
        source := basicStateReducer (source st) (js_get EXAMPLES name)\<rparr>"

text \<open>The example buttons: one per entry of \<open>Object.entries(EXAMPLE_NAMES)\<close>.\<close>

definition example_buttons :: "jsstring list" where
  "example_buttons = map fst EXAMPLE_NAMES"

text \<open>The target tabs: one per element of \<open>Object.keys(TARGET_LABELS)\<close>.\<close>

definition target_tabs :: "jsstring list" where
  "target_tabs = Object_keys TARGET_LABELS"

definition setTarget :: "jsstring \<Rightarrow> app_state \<Rightarrow> app_state" where
  "setTarget t st = st\<lparr>target := t\<rparr>"

definition setSource :: "jsstring \<Rightarrow> app_state \<Rightarrow> app_state" where
  "setSource s st = st\<lparr>source := JString s\<rparr>"

definition setCopied :: "bool \<Rightarrow> app_state \<Rightarrow> app_state" where
  "setCopied b st = st\<lparr>copied := b\<rparr>"

subsection \<open>handleTab\<close>

text \<open>
  The key handler of the editor. The caret move scheduled with \<open>requestAnimationFrame\<close>
  touches the DOM element only and is not part of the component state.
\<close>

definition handleTab :: "jsstring \<Rightarrow> textarea \<Rightarrow> app_state \<Rightarrow> app_state" where
  "handleTab key ta st =
     (if key = js ''Tab'' then
        (let start = selectionStart ta;
             finish = selectionEnd ta;
             val = ta_value ta;
             newVal = substring val 0 start @ js ''  '' @ substring_from val finish
         in st\<lparr>source := JString newVal\<rparr>)
      else st)"

subsection \<open>Loading from the URL\<close>

text \<open>
  The mount effect reads \<open>src\<close> and \<open>target\<close> from the query string
  (\<open>URLSearchParams.get\<close> gives a string or \<open>null\<close>). \<open>decodeURIComponent\<close> throws a
  URIError on a malformed escape; the effect has no handler, so what follows in it does
  not run. The decoder is a parameter.
\<close>

datatype uri_error = URIError

type_synonym decoder = "jsstring \<Rightarrow> uri_error + jsstring"

definition load_from_url ::
  "decoder \<Rightarrow> jsstring option \<Rightarrow> jsstring option \<Rightarrow> app_state \<Rightarrow> uri_error + app_state" where
  "load_from_url decodeURIComponent srcParam targetParam st =
     (case
        (case srcParam of
           Some s \<Rightarrow>
             if s \<noteq> [] then
               (case decodeURIComponent s of
                  Inl err \<Rightarrow> Inl err
                | Inr decoded \<Rightarrow> Inr (setSource decoded st))
             else Inr st
         | None \<Rightarrow> Inr st)
      of
        Inl err \<Rightarrow> Inl err
      | Inr st1 \<Rightarrow>
          (case targetParam of
             Some t \<Rightarrow>
               if t \<noteq> [] \<and> truthy (js_get TARGET_LABELS t) then Inr (setTarget t st1)
               else Inr st1
           | None \<Rightarrow> Inr st1))"

subsection \<open>Rendering\<close>

text \<open>
  A render puts \<open>TARGET_LABELS[target]\<close> and \<open>TARGET_EXT[target]\<close> among the children of
  the output panel's title. React renders a string, nothing for \<open>undefined\<close> and (with a
  warning) nothing for a function, and throws on an object that is no element. A render
  also fails when a pending updater throws. The component has no error boundary: a failed
  render unmounts it, and its effects do not run.
\<close>

fun valid_child :: "jsval \<Rightarrow> bool" where
  "valid_child (JString s) = True"
| "valid_child JUndefined = True"
| "valid_child (JBoolean b) = True"
| "valid_child (JFunction f) = True"
| "valid_child v = False"

definition renders :: "app_state \<Rightarrow> bool" where
  "renders st \<longleftrightarrow>
     (case source st of JFunction f \<Rightarrow> False | v \<Rightarrow> True)
     \<and> valid_child (js_get TARGET_LABELS (target st))
     \<and> valid_child (js_get TARGET_EXT (target st))"

datatype crash = UncaughtURIError | RenderError

text \<open>
  Mounting: after the first render the effects run in the order of their declaration, the
  compile effect on the initial state first, then the URL effect; the render that follows
  takes up what they set, and the compile effect runs again when the URL changed
  \<open>source\<close> or \<open>target\<close>.
\<close>

definition mount ::
  "compiler \<Rightarrow> decoder \<Rightarrow> jsstring option \<Rightarrow> jsstring option \<Rightarrow> crash + app_state" where
  "mount compile decodeURIComponent srcParam targetParam =
     (let st0 = doCompile compile (source initial) (target initial) initial
      in case load_from_url decodeURIComponent srcParam targetParam st0 of
           Inl err \<Rightarrow> Inl UncaughtURIError
         | Inr st1 \<Rightarrow>
             if renders st1 then Inr (compile_effect compile st0 st1) else Inl RenderError)"

subsection \<open>The component as a transition system\<close>

datatype event =
    ClickExample jsstring
  | ClickTarget jsstring
  | Change jsstring
  | KeyDown jsstring textarea
  | Copied
  | CopiedTimeout

fun offered :: "event \<Rightarrow> bool" where
  "offered (ClickExample key) = (key \<in> set example_buttons)"
| "offered (ClickTarget t) = (t \<in> set target_tabs)"
| "offered ev = True"

fun handler :: "event \<Rightarrow> app_state \<Rightarrow> app_state" where
  "handler (ClickExample key) st = handleExampleChange key st"
| "handler (ClickTarget t) st = setTarget t st"
| "handler (Change val) st = setSource val st"
| "handler (KeyDown key ta) st = handleTab key ta st"
| "handler Copied st = setCopied True st"
| "handler CopiedTimeout st = setCopied False st"

text \<open>An event: its handler, the render of the new state, then the compile effect.\<close>

definition dispatch :: "compiler \<Rightarrow> event \<Rightarrow> app_state \<Rightarrow> crash + app_state" where
  "dispatch compile ev st =
     (if renders (handler ev st) then Inr (compile_effect compile st (handler ev st))
      else Inl RenderError)"

inductive reachable :: "compiler \<Rightarrow> decoder \<Rightarrow> app_state \<Rightarrow> bool"
  for compile :: compiler and decodeURIComponent :: decoder where
    mounted:
      "mount compile decodeURIComponent srcParam targetParam = Inr st
       \<Longrightarrow> reachable compile decodeURIComponent st"
  | event:
      "reachable compile decodeURIComponent st \<Longrightarrow> offered ev
       \<Longrightarrow> dispatch compile ev st = Inr st'
       \<Longrightarrow> reachable compile decodeURIComponent st'"

section \<open>The source statistics as the specification words them\<close>

text \<open>
  The two source-side figures, stated over positions of the source text rather than by
  splitting it. \<open>segment s i j\<close> is the text from position \<open>i\<close> up to, not including,
  position \<open>j\<close>.
\<close>

definition segment :: "jsstring \<Rightarrow> nat \<Rightarrow> nat \<Rightarrow> jsstring" where
  "segment s i j = take (j - i) (drop i s)"

definition positions :: "jsstring \<Rightarrow> (nat \<times> nat) list" where
  "positions s = List.product [0..<Suc (length s)] [0..<Suc (length s)]"

text \<open>
  A maximal non-empty whitespace-delimited substring: it is not empty, holds no
  whitespace, and cannot be extended to the left or to the right, because there the text
  ends or whitespace stands.
\<close>

definition is_token :: "jsstring \<Rightarrow> nat \<times> nat \<Rightarrow> bool" where
  "is_token s =
     (\<lambda>(i, j). i < j \<and> j \<le> length s
        \<and> (\<forall>c \<in> set (segment s i j). \<not> isWhiteSpace c)
        \<and> (i = 0 \<or> isWhiteSpace (s ! (i - 1)))
        \<and> (j = length s \<or> isWhiteSpace (s ! j)))"

definition spec_srcTokens :: "jsstring \<Rightarrow> nat" where
  "spec_srcTokens s = length (filter (is_token s) (positions s))"

text \<open>
  A line: a stretch without a newline that begins at the start of the text or behind a
  newline and ends at the end of the text or before a newline. The content of a line is
  non-empty after trimming whitespace when it holds a code unit that is no whitespace;
  the figure counts those lines.
\<close>

definition is_line :: "jsstring \<Rightarrow> nat \<times> nat \<Rightarrow> bool" where
  "is_line s =
     (\<lambda>(i, j). i \<le> j \<and> j \<le> length s
        \<and> LF \<notin> set (segment s i j)
        \<and> (i = 0 \<or> s ! (i - 1) = LF)
        \<and> (j = length s \<or> s ! j = LF))"

definition spec_srcLines :: "jsstring \<Rightarrow> nat" where
  "spec_srcLines s =
     length
       (filter (\<lambda>(i, j). \<exists>c \<in> set (segment s i j). \<not> isWhiteSpace c)
         (filter (is_line s) (positions s)))"

subsection \<open>Notions used in the proofs\<close>

text \<open>
  \<open>run_starts b s\<close> counts the positions of \<open>s\<close> where a run of text begins, \<open>b\<close>
  telling whether a run may begin at position 0. \<open>tok b s\<close> is the set of tokens of
  \<open>s\<close> under the same convention, and \<open>lin Q p s\<close> the set of lines of \<open>s\<close> whose
  content satisfies \<open>Q\<close>, the first line being read behind the prefix \<open>p\<close>.
\<close>

fun run_starts :: "bool \<Rightarrow> jsstring \<Rightarrow> nat" where
  "run_starts b [] = 0"
| "run_starts b (c # s) =
     (if b \<and> \<not> isWhiteSpace c then 1 else 0) + run_starts (isWhiteSpace c) s"

definition tok :: "bool \<Rightarrow> jsstring \<Rightarrow> (nat \<times> nat) set" where
  "tok b s =
     {(i, j). i < j \<and> j \<le> length s
        \<and> (\<forall>c \<in> set (segment s i j). \<not> isWhiteSpace c)
        \<and> (if i = 0 then b else isWhiteSpace (s ! (i - 1)))
        \<and> (j = length s \<or> isWhiteSpace (s ! j))}"

definition lin :: "(jsstring \<Rightarrow> bool) \<Rightarrow> jsstring \<Rightarrow> jsstring \<Rightarrow> (nat \<times> nat) set" where
  "lin Q p s = {(i, j). is_line s (i, j) \<and> Q ((if i = 0 then p else []) @ segment s i j)}"

section \<open>Properties\<close>

declare split_newline.simps [simp del] split_whitespace.simps [simp del]

subsection \<open>String literals\<close>

lemma unat_code_unit_of: "unat (code_unit_of c) = of_char c"
proof -
  have "(of_char c :: nat) < 256"
    by simp
  then have "(of_char c :: nat) < 2 ^ 16"
    by (rule less_trans) simp
  then have "(of_char c :: nat) mod 2 ^ LENGTH(16) = of_char c"
    by simp
  then show ?thesis
    unfolding code_unit_of_def by (simp only: unat_of_nat)
qed

lemma code_unit_of_eq_iff [simp]: "code_unit_of a = code_unit_of b \<longleftrightarrow> a = b"
proof
  assume "code_unit_of a = code_unit_of b"
  then have "unat (code_unit_of a) = unat (code_unit_of b)"
    by (rule arg_cong)
  then have "(of_char a :: nat) = of_char b"
    by (simp only: unat_code_unit_of)
  then show "a = b"
    by (simp only: of_char_eq_iff)
next
  assume "a = b"
  then show "code_unit_of a = code_unit_of b"
    by (rule arg_cong)
qed

lemma js_eq_iff [simp]: "js a = js b \<longleftrightarrow> a = b"
  unfolding js_def by (simp add: inj_map_eq_map inj_on_def)

lemma js_Nil_iff [simp]: "js a = [] \<longleftrightarrow> a = []"
  by (simp add: js_def)

lemma length_js [simp]: "length (js s) = length s"
  by (simp add: js_def)

subsection \<open>Number arithmetic\<close>

text \<open>
  The rounding to an integer stays between the integers around its argument, and
  \<open>floor_log2\<close> is the binary exponent of its argument.
\<close>

lemma floor_le_round_half_even: "\<lfloor>r\<rfloor> \<le> round_half_even r"
  by (simp add: round_half_even_def Let_def)

lemma round_half_even_ge:
  assumes "of_int k \<le> r"
  shows "k \<le> round_half_even r"
proof -
  from assms have "k \<le> \<lfloor>r\<rfloor>"
    by (simp add: le_floor_iff)
  with floor_le_round_half_even [of r] show ?thesis
    by linarith
qed

lemma round_half_even_le:
  assumes "r \<le> of_int k"
  shows "round_half_even r \<le> k"
proof (cases "r = of_int \<lfloor>r\<rfloor>")
  case True
  then have "r - of_int \<lfloor>r\<rfloor> = 0"
    by simp
  then have "round_half_even r = \<lfloor>r\<rfloor>"
    by (simp add: round_half_even_def Let_def)
  moreover have "\<lfloor>r\<rfloor> \<le> k"
    using assms by (simp add: floor_le_iff)
  ultimately show ?thesis
    by simp
next
  case False
  have "of_int \<lfloor>r\<rfloor> < r"
  proof (rule le_neq_trans)
    show "of_int \<lfloor>r\<rfloor> \<le> r"
      by (rule of_int_floor_le)
    show "of_int \<lfloor>r\<rfloor> \<noteq> r"
      using False by (rule not_sym)
  qed
  with assms have "(of_int \<lfloor>r\<rfloor> :: rat) < of_int k"
    by linarith
  then have "\<lfloor>r\<rfloor> + 1 \<le> k"
    by simp
  moreover have "round_half_even r \<le> \<lfloor>r\<rfloor> + 1"
    by (simp add: round_half_even_def Let_def)
  ultimately show ?thesis
    by linarith
qed

lemma two_powi_split: "(2::rat) powi (e - 52) * 2 ^ 52 = 2 powi e"
proof -
  have "(2::rat) powi ((e - 52) + 52) = 2 powi (e - 52) * 2 powi 52"
    by (rule power_int_add) simp
  then show ?thesis
    by simp
qed

lemma two_powi_split53: "(2::rat) powi (e - 52) * 2 ^ 53 = 2 powi (e + 1)"
proof -
  have "(2::rat) powi ((e - 52) + 53) = 2 powi (e - 52) * 2 powi 53"
    by (rule power_int_add) simp
  then show ?thesis
    by (simp add: add.commute)
qed

lemma two_powi_mono: "m \<le> n \<Longrightarrow> (2::rat) powi m \<le> 2 powi n"
  by (simp add: power_int_increasing)

lemma two_powi_strict_mono: "m < n \<Longrightarrow> (2::rat) powi m < 2 powi n"
  by (simp add: power_int_strict_increasing)

lemma bitlen_bounds_rat:
  assumes "0 < p"
  shows "(2::rat) powi (bitlen p - 1) \<le> of_int p" and "of_int p < (2::rat) powi bitlen p"
proof -
  from assms have b: "1 \<le> bitlen p"
    by (auto simp add: bitlen_alt_def)
  from bitlen_bounds [OF assms]
  have "(of_int (2 ^ nat (bitlen p - 1)) :: rat) \<le> of_int p"
    and "(of_int p :: rat) < of_int (2 ^ nat (bitlen p))"
    by (simp_all only: of_int_le_iff of_int_less_iff)
  with b show "(2::rat) powi (bitlen p - 1) \<le> of_int p" and "of_int p < (2::rat) powi bitlen p"
    by (simp_all add: power_int_def)
qed

lemma floor_log2_bounds:
  assumes "0 < x"
  shows "2 powi floor_log2 x \<le> x \<and> x < 2 powi (floor_log2 x + 1)"
proof -
  obtain p q where pq: "quotient_of x = (p, q)"
    by (cases "quotient_of x")
  then have q: "0 < q" and x: "x = of_int p / of_int q"
    by (simp_all add: quotient_of_denom_pos quotient_of_div)
  with assms have p: "0 < p"
    by (simp add: zero_less_divide_iff)
  let ?d = "bitlen p - bitlen q"
  note P = bitlen_bounds_rat [OF p] and Q = bitlen_bounds_rat [OF q]
  have Qpos: "(0::rat) < of_int q"
    using q by simp
  have upper: "x < 2 powi (?d + 1)"
  proof -
    have "x < 2 powi bitlen p / of_int q"
      unfolding x using P(2) Qpos by (simp add: divide_strict_right_mono)
    also have "\<dots> \<le> 2 powi bitlen p / 2 powi (bitlen q - 1)"
      using Q(1) Qpos by (intro divide_left_mono) (simp_all add: zero_less_mult_iff)
    also have "\<dots> = 2 powi (?d + 1)"
      by (simp add: power_int_diff [symmetric] algebra_simps)
    finally show ?thesis .
  qed
  have lower: "2 powi (?d - 1) \<le> x"
  proof -
    have "(2::rat) powi (?d - 1) = 2 powi (bitlen p - 1) / 2 powi bitlen q"
      by (simp add: power_int_diff [symmetric] algebra_simps)
    also have "\<dots> \<le> 2 powi (bitlen p - 1) / of_int q"
      using Q(2) Qpos by (intro divide_left_mono) (simp_all add: zero_less_mult_iff)
    also have "\<dots> \<le> x"
      unfolding x using P(1) Qpos by (simp add: divide_right_mono)
    finally show ?thesis .
  qed
  show ?thesis
  proof (cases "2 powi ?d \<le> x")
    case True
    with upper show ?thesis
      by (simp add: floor_log2_def pq Let_def)
  next
    case False
    with lower show ?thesis
      by (simp add: floor_log2_def pq Let_def)
  qed
qed

text \<open>
  The overflow test of \<open>binary64\<close>: the exponent is above 1023, or it is 1023 and the
  significand rounds up to \<open>2^53\<close>. That is the case exactly when the rounded magnitude
  reaches \<open>2^1024\<close>.
\<close>

lemma binary64_overflow_iff:
  fixes a :: rat
  assumes a: "0 < a"
  defines "e \<equiv> max (floor_log2 a) (- 1022)"
  defines "u \<equiv> (2::rat) powi (e - 52)"
  defines "n \<equiv> round_half_even (a / u)"
  shows "1023 < e \<or> e = 1023 \<and> 2 ^ 53 \<le> n \<longleftrightarrow> 2 powi 1024 \<le> of_int n * u"
proof -
  have u: "0 < u"
    by (simp add: u_def)
  note B = floor_log2_bounds [OF a]
  have e0: "floor_log2 a \<le> e"
    by (simp add: e_def)
  have n_le: "n \<le> 2 ^ 53"
  proof -
    have "a < 2 powi (e + 1)"
      using B e0 two_powi_mono [of "floor_log2 a + 1" "e + 1"] by simp
    also have "\<dots> = u * 2 ^ 53"
      by (simp only: u_def two_powi_split53)
    finally have "a / u \<le> of_int (2 ^ 53)"
      using u by (simp add: pos_divide_le_eq mult.commute)
    then show ?thesis
      unfolding n_def by (rule round_half_even_le)
  qed
  have n_ge: "2 ^ 52 \<le> n" if "e = floor_log2 a"
  proof -
    have "u * 2 ^ 52 = 2 powi e"
      by (simp only: u_def two_powi_split)
    with B that have "u * 2 ^ 52 \<le> a"
      by simp
    then have "of_int (2 ^ 52) \<le> a / u"
      using u by (simp add: pos_le_divide_eq mult.commute)
    then show ?thesis
      unfolding n_def by (rule round_half_even_ge)
  qed
  consider "1023 < e" | "e = 1023" | "e < 1023"
    by linarith
  then show ?thesis
  proof cases
    case 1
    then have "e = floor_log2 a"
      by (simp add: e_def max_def split: if_splits)
    from n_ge [OF this] have "(2::rat) ^ 52 \<le> of_int n"
      by (metis of_int_le_iff of_int_numeral of_int_power)
    then have "u * 2 ^ 52 \<le> of_int n * u"
      using u by (simp add: mult.commute)
    then have "2 powi e \<le> of_int n * u"
      by (simp only: u_def two_powi_split)
    moreover have "(2::rat) powi 1024 \<le> 2 powi e"
      using 1 by (intro two_powi_mono) simp
    ultimately show ?thesis
      using 1 by simp
  next
    case 2
    have "(2::rat) powi 1024 = 2 powi (e + 1)"
      using 2 by simp
    then have "(2::rat) powi 1024 = u * 2 ^ 53"
      by (simp only: u_def two_powi_split53)
    moreover have "u * 2 ^ 53 \<le> of_int n * u \<longleftrightarrow> (2::rat) ^ 53 \<le> of_int n"
      using u by (simp add: mult.commute)
    moreover have "(2::rat) ^ 53 \<le> of_int n \<longleftrightarrow> 2 ^ 53 \<le> n"
      by (metis of_int_le_iff of_int_numeral of_int_power)
    ultimately show ?thesis
      using 2 by simp
  next
    case 3
    from n_le have "of_int n \<le> (2::rat) ^ 53"
      by (metis of_int_le_iff of_int_numeral of_int_power)
    then have "of_int n * u \<le> u * 2 ^ 53"
      using u by (simp add: mult.commute)
    also have "\<dots> = 2 powi (e + 1)"
      by (simp only: u_def two_powi_split53)
    also have "\<dots> < 2 powi 1024"
      using 3 by (intro two_powi_strict_mono) simp
    finally show ?thesis
      using 3 by simp
  qed
qed

subsection \<open>The savings figure\<close>

text \<open>
  The division in the savings figure has a zero divisor exactly when there are source
  tokens and no output tokens.
\<close>

lemma savings_DivisionByZero_iff:
  "savings s = Inl DivisionByZero \<longleftrightarrow> 0 < srcTokens s \<and> tokens s = 0"
  by (simp add: savings_def percentage_def divide_js_def)

text \<open>
  C1. For a statistics record whose output token count \<open>stats.tokens\<close> is a positive
  integer, the savings figure \<open>round((1 - srcTokens / tokens) * 100)\<close> is evaluated without
  a division by zero, and so has a value.
\<close>

theorem savings_no_division_by_zero:
  assumes "0 < tokens s"
  shows "savings s \<noteq> Inl DivisionByZero \<and> (\<exists>figure. savings s = Inr figure)"
  using assms by (simp add: savings_def percentage_def divide_js_def)

theorem savings_no_division_by_zero_witness:
  "0 < tokens \<lparr>lines = 12, tokens = 40, srcLines = 3, srcTokens = 17\<rparr>
   \<and> savings \<lparr>lines = 12, tokens = 40, srcLines = 3, srcTokens = 17\<rparr> \<noteq> Inl DivisionByZero
   \<and> savings \<lparr>lines = 12, tokens = 40, srcLines = 3, srcTokens = 17\<rparr> = Inr (Num 57)"
proof -
  have "savings \<lparr>lines = 12, tokens = 40, srcLines = 3, srcTokens = 17\<rparr> = Inr (Num 57)"
    by code_simp
  with savings_no_division_by_zero
    [of "\<lparr>lines = 12, tokens = 40, srcLines = 3, srcTokens = 17\<rparr>"]
  show ?thesis
    by simp
qed

subsection \<open>Counting tokens\<close>

lemma split_whitespace_Nil: "split_whitespace [] = [] # []"
  by (simp add: split_whitespace.simps [of "[]"])

lemma split_whitespace_space:
  "isWhiteSpace c \<Longrightarrow> split_whitespace (c # s) = [] # split_whitespace (dropWhile isWhiteSpace s)"
  by (simp add: split_whitespace.simps [of "c # s"])

lemma split_whitespace_other:
  assumes "\<not> isWhiteSpace c"
  shows "split_whitespace (c # s) = (c # hd (split_whitespace s)) # tl (split_whitespace s)"
proof -
  let ?text = "\<lambda>c. \<not> isWhiteSpace c"
  have d: "dropWhile ?text (c # s) = dropWhile ?text s"
    and t: "takeWhile ?text (c # s) = c # takeWhile ?text s"
    using assms by simp_all
  show ?thesis
  proof (cases "dropWhile ?text s")
    case Nil
    then have "takeWhile ?text s = s"
      by simp
    with Nil show ?thesis
      unfolding split_whitespace.simps [of "c # s"] split_whitespace.simps [of s] d t
      by (simp only: list.case list.sel)
  next
    case (Cons w rest)
    then show ?thesis
      unfolding split_whitespace.simps [of "c # s"] split_whitespace.simps [of s] d t
      by (simp only: list.case list.sel)
  qed
qed

lemma count_split_whitespace_dropWhile:
  "length (filter (\<lambda>t. t \<noteq> []) (split_whitespace (dropWhile isWhiteSpace s)))
     = length (filter (\<lambda>t. t \<noteq> []) (split_whitespace s))"
  by (cases s) (simp_all add: split_whitespace_space)

lemma count_split_whitespace:
  "length (filter (\<lambda>t. t \<noteq> []) (split_whitespace s)) = run_starts True s
   \<and> length (filter (\<lambda>t. t \<noteq> []) (tl (split_whitespace s))) = run_starts False s"
proof (induction s)
  case Nil
  show ?case by (simp add: split_whitespace_Nil)
next
  case (Cons c s)
  show ?case
  proof (cases "isWhiteSpace c")
    case True
    with Cons show ?thesis
      by (simp add: split_whitespace_space count_split_whitespace_dropWhile)
  next
    case False
    with Cons show ?thesis
      by (simp add: split_whitespace_other)
  qed
qed


lemma length_takeWhile_iff:
  "j \<le> length s \<and> (\<forall>x \<in> set (take j s). P x) \<and> (j = length s \<or> \<not> P (s ! j))
     \<longleftrightarrow> j = length (takeWhile P s)"
proof
  assume a: "j \<le> length s \<and> (\<forall>x \<in> set (take j s). P x) \<and> (j = length s \<or> \<not> P (s ! j))"
  have "takeWhile P s = take j s"
  proof (rule takeWhile_eq_take_P_nth)
    fix i assume "i < j" "i < length s"
    then have "s ! i \<in> set (take j s)"
      by (metis in_set_conv_nth length_take min_less_iff_conj nth_take)
    with a show "P (s ! i)" by blast
  next
    assume "j < length s"
    with a show "\<not> P (s ! j)" by auto
  qed
  then have "length (takeWhile P s) = length (take j s)"
    by simp
  with a show "j = length (takeWhile P s)"
    by simp
next
  assume j: "j = length (takeWhile P s)"
  have 1: "j \<le> length s"
    unfolding j by (rule length_takeWhile_le)
  have "take j s = takeWhile P s"
    unfolding j by (rule takeWhile_eq_take [symmetric])
  then have 2: "\<forall>x \<in> set (take j s). P x"
    by (auto dest: set_takeWhileD)
  have 3: "j = length s \<or> \<not> P (s ! j)"
  proof (cases "j = length s")
    case False
    with 1 have "length (takeWhile P s) < length s"
      unfolding j by simp
    then have "\<not> P (s ! length (takeWhile P s))"
      by (rule nth_length_takeWhile)
    then show ?thesis unfolding j by simp
  qed simp
  from 1 2 3 show "j \<le> length s \<and> (\<forall>x \<in> set (take j s). P x) \<and> (j = length s \<or> \<not> P (s ! j))"
    by blast
qed

lemma tok_Nil: "tok b [] = {}"
  by (simp add: tok_def)

lemma tok_zero: "(i, 0) \<notin> tok b s"
  by (simp add: tok_def)

lemma tok_Suc_Suc: "(Suc i, Suc j) \<in> tok b (c # s) \<longleftrightarrow> (i, j) \<in> tok (isWhiteSpace c) s"
  by (simp add: tok_def segment_def nth_Cons')

lemma tok_0_Suc:
  "(0, Suc j) \<in> tok b (c # s)
     \<longleftrightarrow> b \<and> \<not> isWhiteSpace c \<and> j = length (takeWhile (\<lambda>c. \<not> isWhiteSpace c) s)"
proof -
  have "(0, Suc j) \<in> tok b (c # s)
     \<longleftrightarrow> b \<and> \<not> isWhiteSpace c
         \<and> (j \<le> length s \<and> (\<forall>x \<in> set (take j s). \<not> isWhiteSpace x)
              \<and> (j = length s \<or> \<not> \<not> isWhiteSpace (s ! j)))"
    by (auto simp add: tok_def segment_def)
  then show ?thesis
    by (simp only: length_takeWhile_iff [of j s "\<lambda>c. \<not> isWhiteSpace c"])
qed

lemma shift_image_iff:
  "(Suc i, Suc j) \<in> (\<lambda>(i, j). (Suc i, Suc j)) ` A \<longleftrightarrow> (i, j) \<in> A"
  "(0, j) \<notin> (\<lambda>(i, j). (Suc i, Suc j)) ` A"
  "(i, 0) \<notin> (\<lambda>(i, j). (Suc i, Suc j)) ` A"
  by force+

lemma tok_Cons:
  "tok b (c # s) =
     (if b \<and> \<not> isWhiteSpace c
      then {(0, Suc (length (takeWhile (\<lambda>c. \<not> isWhiteSpace c) s)))} else {})
     \<union> (\<lambda>(i, j). (Suc i, Suc j)) ` tok (isWhiteSpace c) s"
proof (rule set_eqI)
  fix p :: "nat \<times> nat"
  obtain i j where p: "p = (i, j)"
    by (cases p)
  show "p \<in> tok b (c # s) \<longleftrightarrow>
        p \<in> (if b \<and> \<not> isWhiteSpace c
              then {(0, Suc (length (takeWhile (\<lambda>c. \<not> isWhiteSpace c) s)))} else {})
             \<union> (\<lambda>(i, j). (Suc i, Suc j)) ` tok (isWhiteSpace c) s"
    unfolding p
    by (cases i; cases j) (simp_all add: tok_zero tok_Suc_Suc tok_0_Suc shift_image_iff)
qed

lemma finite_tok: "finite (tok b s)"
proof (rule finite_subset)
  show "tok b s \<subseteq> {..length s} \<times> {..length s}"
    by (auto simp add: tok_def)
qed simp

lemma card_tok: "card (tok b s) = run_starts b s"
proof (induction s arbitrary: b)
  case Nil
  show ?case by (simp add: tok_Nil)
next
  case (Cons c s)
  let ?shift = "\<lambda>(i, j). (Suc i, Suc j) :: nat \<times> nat"
  let ?first = "if b \<and> \<not> isWhiteSpace c
      then {(0 :: nat, Suc (length (takeWhile (\<lambda>c. \<not> isWhiteSpace c) s)))} else {}"
  have inj: "inj_on ?shift (tok (isWhiteSpace c) s)"
    by (auto simp add: inj_on_def)
  have disj: "?first \<inter> ?shift ` tok (isWhiteSpace c) s = {}"
    by auto
  have "card (tok b (c # s)) = card ?first + card (?shift ` tok (isWhiteSpace c) s)"
    unfolding tok_Cons
    by (rule card_Un_disjoint) (use disj finite_tok in auto)
  also have "card (?shift ` tok (isWhiteSpace c) s) = card (tok (isWhiteSpace c) s)"
    using inj by (rule card_image)
  also have "card ?first = (if b \<and> \<not> isWhiteSpace c then 1 else 0)"
    by simp
  finally show ?case
    by (simp add: Cons.IH)
qed

lemma distinct_positions: "distinct (positions s)"
  unfolding positions_def by (intro distinct_product distinct_upt)

lemma is_token_iff_tok: "is_token s (i, j) \<longleftrightarrow> (i, j) \<in> tok True s"
  by (cases "i = 0") (simp_all add: is_token_def tok_def)

lemma tok_positions: "(i, j) \<in> tok b s \<Longrightarrow> (i, j) \<in> set (positions s)"
  by (auto simp add: tok_def positions_def)

lemma spec_srcTokens_card: "spec_srcTokens s = card (tok True s)"
proof -
  have "{x. is_token s x} \<inter> set (positions s) = tok True s"
    using tok_positions [of _ _ True s] by (auto simp add: is_token_iff_tok)
  then show ?thesis
    by (simp add: spec_srcTokens_def distinct_length_filter [OF distinct_positions])
qed

lemma srcTokens_refines:
  "length (filter (\<lambda>t. t \<noteq> []) (split_whitespace s)) = spec_srcTokens s"
  by (simp add: count_split_whitespace spec_srcTokens_card card_tok)


subsection \<open>Counting lines\<close>

lemma split_newline_Nil: "split_newline [] = [] # []"
  by (simp add: split_newline.simps [of "[]"])

lemma split_newline_LF: "split_newline (LF # s) = [] # split_newline s"
  by (simp add: split_newline.simps [of "LF # s"])

lemma split_newline_other:
  assumes "c \<noteq> LF"
  shows "split_newline (c # s) = (c # hd (split_newline s)) # tl (split_newline s)"
proof -
  let ?text = "\<lambda>c. c \<noteq> LF"
  have d: "dropWhile ?text (c # s) = dropWhile ?text s"
    and t: "takeWhile ?text (c # s) = c # takeWhile ?text s"
    using assms by simp_all
  show ?thesis
  proof (cases "dropWhile ?text s")
    case Nil
    then have "takeWhile ?text s = s"
      by simp
    with Nil show ?thesis
      unfolding split_newline.simps [of "c # s"] split_newline.simps [of s] d t
      by (simp only: list.case list.sel)
  next
    case (Cons sep rest)
    then show ?thesis
      unfolding split_newline.simps [of "c # s"] split_newline.simps [of s] d t
      by (simp only: list.case list.sel)
  qed
qed

lemma split_newline_not_Nil: "split_newline s \<noteq> []"
  by (subst split_newline.simps) (simp split: list.splits)

lemma lin_Nil: "lin Q p [] = (if Q p then {(0, 0)} else {})"
  by (auto simp add: lin_def is_line_def segment_def)

lemma lin_zero: "(Suc i, 0) \<notin> lin Q p s"
  by (simp add: lin_def is_line_def)

lemma lin_0_0: "(0, 0) \<in> lin Q p (c # s) \<longleftrightarrow> c = LF \<and> Q p"
  by (simp add: lin_def is_line_def segment_def)

lemma lin_0_Suc: "(0, Suc j) \<in> lin Q p (c # s) \<longleftrightarrow> c \<noteq> LF \<and> (0, j) \<in> lin Q (p @ [c]) s"
  by (auto simp add: lin_def is_line_def segment_def)

lemma lin_Suc_Suc:
  "(Suc i, Suc j) \<in> lin Q p (c # s)
     \<longleftrightarrow> (i = 0 \<longrightarrow> c = LF) \<and> (i, j) \<in> lin Q [] s"
  by (auto simp add: lin_def is_line_def segment_def nth_Cons')

lemma lin_prefix_irrelevant: "i \<noteq> 0 \<Longrightarrow> (i, j) \<in> lin Q p s \<longleftrightarrow> (i, j) \<in> lin Q [] s"
  by (simp add: lin_def)

lemma grow_image_iff:
  "(0, Suc j) \<in> (\<lambda>(i, j). (if i = 0 then 0 else Suc i, Suc j)) ` A \<longleftrightarrow> (0, j) \<in> A"
  "(Suc i, Suc j) \<in> (\<lambda>(i, j). (if i = 0 then 0 else Suc i, Suc j)) ` A
     \<longleftrightarrow> i \<noteq> 0 \<and> (i, j) \<in> A"
  "(i, 0) \<notin> (\<lambda>(i, j). (if i = 0 then 0 else Suc i, Suc j)) ` A"
  by (force split: if_splits)+

lemma lin_LF:
  "lin Q p (LF # s)
     = (if Q p then {(0, 0)} else {}) \<union> (\<lambda>(i, j). (Suc i, Suc j)) ` lin Q [] s"
proof (rule set_eqI)
  fix x :: "nat \<times> nat"
  obtain i j where x: "x = (i, j)"
    by (cases x)
  show "x \<in> lin Q p (LF # s) \<longleftrightarrow>
        x \<in> (if Q p then {(0, 0)} else {}) \<union> (\<lambda>(i, j). (Suc i, Suc j)) ` lin Q [] s"
    unfolding x
    by (cases i; cases j) (simp_all add: lin_zero lin_0_0 lin_0_Suc lin_Suc_Suc shift_image_iff)
qed

lemma lin_other:
  assumes "c \<noteq> LF"
  shows "lin Q p (c # s)
           = (\<lambda>(i, j). (if i = 0 then 0 else Suc i, Suc j)) ` lin Q (p @ [c]) s"
proof (rule set_eqI)
  fix x :: "nat \<times> nat"
  obtain i j where x: "x = (i, j)"
    by (cases x)
  show "x \<in> lin Q p (c # s) \<longleftrightarrow>
        x \<in> (\<lambda>(i, j). (if i = 0 then 0 else Suc i, Suc j)) ` lin Q (p @ [c]) s"
    unfolding x using assms lin_prefix_irrelevant [of _ _ Q "p @ [c]" s]
    by (cases i; cases j)
      (auto simp add: lin_zero lin_0_0 lin_0_Suc lin_Suc_Suc grow_image_iff)
qed

lemma finite_lin: "finite (lin Q p s)"
proof (rule finite_subset)
  show "lin Q p s \<subseteq> {..length s} \<times> {..length s}"
    by (auto simp add: lin_def is_line_def)
qed simp

lemma card_lin:
  "card (lin Q p s)
     = length (filter Q ((p @ hd (split_newline s)) # tl (split_newline s)))"
proof (induction s arbitrary: p)
  case Nil
  show ?case by (simp add: lin_Nil split_newline_Nil)
next
  case (Cons c s)
  show ?case
  proof (cases "c = LF")
    case True
    let ?shift = "\<lambda>(i, j). (Suc i, Suc j) :: nat \<times> nat"
    let ?first = "if Q p then {(0 :: nat, 0 :: nat)} else {}"
    have "card (lin Q p (LF # s)) = card ?first + card (?shift ` lin Q [] s)"
      unfolding lin_LF
      by (rule card_Un_disjoint) (use finite_lin in auto)
    also have "card (?shift ` lin Q [] s) = card (lin Q [] s)"
      by (rule card_image) (auto simp add: inj_on_def)
    also have "\<dots> = length (filter Q (split_newline s))"
      using split_newline_not_Nil [of s] by (simp add: Cons.IH)
    finally show ?thesis
      using True by (simp add: split_newline_LF)
  next
    case False
    let ?grow = "\<lambda>(i, j). (if i = 0 then 0 else Suc i, Suc j) :: nat \<times> nat"
    have "card (lin Q p (c # s)) = card (?grow ` lin Q (p @ [c]) s)"
      by (simp only: lin_other [OF False])
    also have "\<dots> = card (lin Q (p @ [c]) s)"
      by (rule card_image) (auto simp add: inj_on_def split: if_splits)
    finally show ?thesis
      using False by (simp add: Cons.IH split_newline_other)
  qed
qed

lemma lin_positions: "(i, j) \<in> lin Q p s \<Longrightarrow> (i, j) \<in> set (positions s)"
  by (auto simp add: lin_def is_line_def positions_def)

lemma trim_eq_Nil_iff: "trim s = [] \<longleftrightarrow> (\<forall>c \<in> set s. isWhiteSpace c)"
proof -
  have "(\<forall>x \<in> set (dropWhile isWhiteSpace s). isWhiteSpace x)
          \<longleftrightarrow> dropWhile isWhiteSpace s = []"
    by (metis hd_dropWhile hd_in_set empty_iff list.set(1))
  then show ?thesis
    by (simp add: trim_def)
qed

lemma spec_srcLines_card:
  "spec_srcLines s = card (lin (\<lambda>l. \<exists>c \<in> set l. \<not> isWhiteSpace c) [] s)"
proof -
  let ?Q = "\<lambda>l. \<exists>c \<in> set l. \<not> isWhiteSpace c"
  have "{x. is_line s x \<and> (case x of (i, j) \<Rightarrow> ?Q (segment s i j))} \<inter> set (positions s)
          = lin ?Q [] s"
    using lin_positions [of _ _ ?Q "[]" s] by (auto simp add: lin_def)
  then show ?thesis
    by (simp add: spec_srcLines_def distinct_length_filter [OF distinct_positions])
qed

lemma srcLines_refines:
  "length (filter (\<lambda>l. trim l \<noteq> []) (split_newline s)) = spec_srcLines s"
proof -
  have "filter (\<lambda>l. trim l \<noteq> []) (split_newline s)
          = filter (\<lambda>l. \<exists>c \<in> set l. \<not> isWhiteSpace c) (split_newline s)"
    by (simp add: trim_eq_Nil_iff)
  with split_newline_not_Nil [of s] show ?thesis
    by (simp add: spec_srcLines_card card_lin)
qed

subsection \<open>doCompile\<close>

lemma target_doCompile [simp]: "target (doCompile compile src tgt st) = target st"
  by (simp add: doCompile_def catch_def split: sum.splits option.splits)

lemma source_doCompile [simp]: "source (doCompile compile src tgt st) = source st"
  by (simp add: doCompile_def catch_def split: sum.splits option.splits)

text \<open>
  C2 as stated fails where the thrown value carries an empty message: for a compiler that
  throws \<open>new Error('')\<close>, whose string conversion is \<open>Error\<close>, the error state after
  \<open>doCompile\<close> is \<open>Error\<close> and not the thrown message, the empty string.
\<close>

theorem doCompile_empty_message_counterexample:
  "throwing \<lparr>message = Some [], String = js ''Error''\<rparr> (JString (js ''page X:'')) (js ''react'') True
     = Inl \<lparr>message = Some [], String = js ''Error''\<rparr>
   \<and> message \<lparr>message = Some [], String = js ''Error''\<rparr> = Some []
   \<and> error (doCompile (throwing \<lparr>message = Some [], String = js ''Error''\<rparr>)
        (JString (js ''page X:'')) (js ''react'') initial) = js ''Error''
   \<and> error (doCompile (throwing \<lparr>message = Some [], String = js ''Error''\<rparr>)
        (JString (js ''page X:'')) (js ''react'') initial) \<noteq> []"
  by (simp add: throwing_def doCompile_def catch_def error_text_def)

text \<open>
  C2, amended. For every source string and target: if
  \<open>compile(source, {target, validate: true})\<close> throws, then after \<open>doCompile\<close> the output
  is the empty string, the four statistics are zero, and the error state holds the thrown
  message when that is a non-empty string and the string conversion \<open>String(e)\<close> of the
  thrown value when the message is absent or empty; if \<open>compile\<close> returns normally, the
  error state is the empty string.
\<close>

theorem doCompile_failure_and_success:
  "(compile (JString src) tgt True = Inl e \<longrightarrow>
      output (doCompile compile (JString src) tgt st) = []
    \<and> stats (doCompile compile (JString src) tgt st)
        = \<lparr>lines = 0, tokens = 0, srcLines = 0, srcTokens = 0\<rparr>
    \<and> (\<forall>m. message e = Some m \<and> m \<noteq> [] \<longrightarrow>
          error (doCompile compile (JString src) tgt st) = m)
    \<and> (message e = None \<or> message e = Some [] \<longrightarrow>
          error (doCompile compile (JString src) tgt st) = String e))
 \<and> (compile (JString src) tgt True = Inr r \<longrightarrow>
      error (doCompile compile (JString src) tgt st) = [])"
proof (intro conjI impI allI)
  assume "compile (JString src) tgt True = Inl e"
  then have caught: "doCompile compile (JString src) tgt st = catch e st"
    by (simp add: doCompile_def)
  show "output (doCompile compile (JString src) tgt st) = []"
    and "stats (doCompile compile (JString src) tgt st)
           = \<lparr>lines = 0, tokens = 0, srcLines = 0, srcTokens = 0\<rparr>"
    unfolding caught by (simp_all add: catch_def no_stats_def)
  show "error (doCompile compile (JString src) tgt st) = m"
    if "message e = Some m \<and> m \<noteq> []" for m
    unfolding caught using that by (simp add: catch_def error_text_def)
  show "error (doCompile compile (JString src) tgt st) = String e"
    if "message e = None \<or> message e = Some []"
    unfolding caught using that by (auto simp add: catch_def error_text_def)
next
  assume "compile (JString src) tgt True = Inr r"
  then show "error (doCompile compile (JString src) tgt st) = []"
    by (simp add: doCompile_def)
qed

theorem doCompile_failure_and_success_witness:
  "error (doCompile
      (throwing \<lparr>message = Some (js ''Unterminated string''),
                 String = js ''LexError: Unterminated string''\<rparr>)
      (JString (js ''page X:'')) (js ''react'') initial) = js ''Unterminated string''
   \<and> output (doCompile
      (throwing \<lparr>message = Some (js ''Unterminated string''),
                 String = js ''LexError: Unterminated string''\<rparr>)
      (JString (js ''page X:'')) (js ''react'') initial) = []
   \<and> error (doCompile (throwing \<lparr>message = None, String = js ''boom''\<rparr>)
      (JString (js ''page X:'')) (js ''react'') initial) = js ''boom''
   \<and> error (doCompile
      (returning \<lparr>code = js ''<x/>'', lineCount = 1, tokenCount = 1\<rparr>)
      (JString (js ''page X:'')) (js ''react'') (initial\<lparr>error := js ''old''\<rparr>)) = []"
  using
    doCompile_failure_and_success
      [of "throwing \<lparr>message = Some (js ''Unterminated string''),
                      String = js ''LexError: Unterminated string''\<rparr>"
          "js ''page X:''" "js ''react''"
          "\<lparr>message = Some (js ''Unterminated string''),
            String = js ''LexError: Unterminated string''\<rparr>"
          initial]
    doCompile_failure_and_success
      [of "throwing \<lparr>message = None, String = js ''boom''\<rparr>"
          "js ''page X:''" "js ''react''"
          "\<lparr>message = None, String = js ''boom''\<rparr>"
          initial]
    doCompile_failure_and_success
      [of "returning \<lparr>code = js ''<x/>'', lineCount = 1, tokenCount = 1\<rparr>"
          "js ''page X:''" "js ''react''" _ "initial\<lparr>error := js ''old''\<rparr>"
          "\<lparr>code = js ''<x/>'', lineCount = 1, tokenCount = 1\<rparr>"]
  by (simp add: throwing_def returning_def)

text \<open>
  C8. On a successful compile of the source string \<open>src\<close>, \<open>srcLines\<close> is the number of
  lines of \<open>src\<close> whose content is non-empty after trimming whitespace, and \<open>srcTokens\<close>
  is the number of maximal non-empty whitespace-delimited substrings of \<open>src\<close>; that
  \<open>srcTokens\<close> is the numerator in the savings figure.
\<close>

theorem doCompile_source_statistics:
  assumes "compile (JString src) tgt True = Inr result"
  shows "srcLines (stats (doCompile compile (JString src) tgt st)) = int (spec_srcLines src)
       \<and> srcTokens (stats (doCompile compile (JString src) tgt st)) = int (spec_srcTokens src)
       \<and> savings (stats (doCompile compile (JString src) tgt st))
           = (if 0 < int (spec_srcTokens src)
              then percentage (int (spec_srcTokens src)) (tokenCount result)
              else Inr (Num 0))"
  using assms
  by (simp add: doCompile_def savings_def srcLines_refines srcTokens_refines)

theorem doCompile_source_statistics_witness:
  "returning \<lparr>code = js ''<x/>'', lineCount = 1, tokenCount = 4\<rparr>
      (JString (js '' a  b'' @ [LF, LF] @ [0x20, 0x09] @ [LF] @ js ''c '')) (js ''react'') True
     = Inr \<lparr>code = js ''<x/>'', lineCount = 1, tokenCount = 4\<rparr>
   \<and> stats (doCompile (returning \<lparr>code = js ''<x/>'', lineCount = 1, tokenCount = 4\<rparr>)
        (JString (js '' a  b'' @ [LF, LF] @ [0x20, 0x09] @ [LF] @ js ''c ''))
        (js ''react'') initial)
     = \<lparr>lines = 1, tokens = 4, srcLines = 2, srcTokens = 3\<rparr>
   \<and> savings (stats (doCompile
        (returning \<lparr>code = js ''<x/>'', lineCount = 1, tokenCount = 4\<rparr>)
        (JString (js '' a  b'' @ [LF, LF] @ [0x20, 0x09] @ [LF] @ js ''c ''))
        (js ''react'') initial))
     = Inr (Num 25)"
proof -
  let ?result = "\<lparr>code = js ''<x/>'', lineCount = 1, tokenCount = 4\<rparr>"
  let ?src = "js '' a  b'' @ [LF, LF] @ [0x20, 0x09] @ [LF] @ js ''c ''"
  let ?st = "doCompile (returning ?result) (JString ?src) (js ''react'') initial"
  have l: "spec_srcLines ?src = 2"
    by code_simp
  have t: "spec_srcTokens ?src = 3"
    by code_simp
  have p: "percentage 3 4 = Inr (Num 25)"
    by code_simp
  have ok: "returning ?result (JString ?src) (js ''react'') True = Inr ?result"
    by (simp add: returning_def)
  have f: "lines (stats ?st) = 1 \<and> tokens (stats ?st) = 4"
    by (simp add: doCompile_def returning_def)
  from doCompile_source_statistics
      [of "returning ?result" ?src "js ''react''" ?result initial]
    l t p f ok
  show ?thesis
    by (simp add: stats.equality)
qed

subsection \<open>handleExampleChange\<close>

text \<open>
  C9. Every key of \<open>EXAMPLE_NAMES\<close> is a key of \<open>EXAMPLES\<close>; so for every example
  button, \<open>handleExampleChange\<close> is called with a name for which \<open>EXAMPLES[name]\<close> is a
  string, and the source it stores is that string, never \<open>undefined\<close>.
\<close>

theorem example_buttons_have_sources:
  "\<forall>key \<in> set (Object_keys EXAMPLE_NAMES).
      key \<in> set (Object_keys EXAMPLES)
    \<and> key \<in> set example_buttons
    \<and> (\<exists>s. js_get EXAMPLES key = JString s
           \<and> source (handleExampleChange key st) = JString s)
    \<and> source (handleExampleChange key st) \<noteq> JUndefined"
  by (simp add: example_buttons_def Object_keys_def EXAMPLE_NAMES_def EXAMPLES_def
      js_get_def handleExampleChange_def basicStateReducer_def)

theorem example_buttons_have_sources_witness:
  "js ''todo'' \<in> set (Object_keys EXAMPLE_NAMES)
   \<and> source (handleExampleChange (js ''todo'') initial) = JString EXAMPLES_todo"
proof -
  have key: "js ''todo'' \<in> set (Object_keys EXAMPLE_NAMES)"
    by (simp add: Object_keys_def EXAMPLE_NAMES_def)
  have "js_get EXAMPLES (js ''todo'') = JString EXAMPLES_todo"
    by (simp add: js_get_def EXAMPLES_def)
  with example_buttons_have_sources [of initial, THEN bspec, OF key] key
  show ?thesis
    by simp
qed

text \<open>
  With the other ways the source is set (the initial example, the URL, typing and the Tab
  key), the source is a string in every reachable state.
\<close>

lemma js_get_example_button:
  "key \<in> set example_buttons \<Longrightarrow> \<exists>s. js_get EXAMPLES key = JString s"
  by (auto simp add: example_buttons_def EXAMPLE_NAMES_def EXAMPLES_def js_get_def)

lemma source_compile_effect [simp]: "source (compile_effect compile prev st) = source st"
  by (simp add: compile_effect_def)

lemma source_load_from_url:
  assumes "load_from_url decodeURIComponent srcParam targetParam st = Inr st'"
  shows "source st' = source st \<or> (\<exists>s. source st' = JString s)"
  using assms
  by (auto simp add: load_from_url_def setTarget_def setSource_def
      split: sum.splits option.splits if_splits)

lemma source_handler:
  assumes "offered ev"
  shows "source (handler ev st) = source st \<or> (\<exists>s. source (handler ev st) = JString s)"
proof (cases ev)
  case (ClickExample key)
  with assms js_get_example_button [of key] show ?thesis
    by (auto simp add: handleExampleChange_def basicStateReducer_def)
qed (simp_all add: handleTab_def Let_def setTarget_def setSource_def setCopied_def)

lemma reachable_source:
  assumes "reachable compile decodeURIComponent st"
  shows "\<exists>s. source st = JString s"
  using assms
proof (induction rule: reachable.induct)
  case (mounted srcParam targetParam st)
  let ?st0 = "doCompile compile (source initial) (target initial) initial"
  from mounted obtain st1 where
    l: "load_from_url decodeURIComponent srcParam targetParam ?st0 = Inr st1"
    and st: "st = compile_effect compile ?st0 st1"
    by (auto simp add: mount_def Let_def split: sum.splits if_splits)
  have "source ?st0 = JString EXAMPLES_counter"
    by (simp add: initial_def js_get_def EXAMPLES_def)
  with source_load_from_url [OF l] st show ?case
    by auto
next
  case (event st ev st')
  with source_handler [of ev st] show ?case
    by (auto simp add: dispatch_def split: if_splits)
qed

subsection \<open>The target\<close>

text \<open>
  C3 does not hold of the URL effect. \<open>TARGET_LABELS[targetParam]\<close> is also truthy for
  the names \<open>TARGET_LABELS\<close> inherits from \<open>Object.prototype\<close>: opened with
  \<open>?target=toString\<close>, the playground stores the target \<open>toString\<close>, which is no key
  of \<open>TARGET_LABELS\<close>, and compiles with it.
\<close>

theorem url_target_toString_accepted:
  "\<exists>st0. mount compile decodeURIComponent None (Some (js ''toString''))
           = Inr (doCompile compile (source initial) (js ''toString'') st0)
       \<and> target (doCompile compile (source initial) (js ''toString'') st0) = js ''toString''
       \<and> js ''toString'' \<notin> set (Object_keys TARGET_LABELS)
       \<and> reachable compile decodeURIComponent
            (doCompile compile (source initial) (js ''toString'') st0)"
proof -
  let ?st0 = "setTarget (js ''toString'')
                (doCompile compile (source initial) (js ''react'') initial)"
  have m: "mount compile decodeURIComponent None (Some (js ''toString''))
             = Inr (doCompile compile (source initial) (js ''toString'') ?st0)"
    by (simp add: mount_def load_from_url_def renders_def js_get_def TARGET_LABELS_def
        TARGET_EXT_def EXAMPLES_def Object_prototype_functions_def Let_def compile_effect_def
        setTarget_def initial_def)
  have t: "target (doCompile compile (source initial) (js ''toString'') ?st0) = js ''toString''"
    by (simp add: setTarget_def)
  have k: "js ''toString'' \<notin> set (Object_keys TARGET_LABELS)"
    by (simp add: Object_keys_def TARGET_LABELS_def)
  from m have "reachable compile decodeURIComponent
                 (doCompile compile (source initial) (js ''toString'') ?st0)"
    by (rule reachable.mounted)
  with m t k show ?thesis
    by blast
qed

text \<open>
  \<open>__proto__\<close> passes the guard of the URL effect as well, but \<open>TARGET_LABELS[target]\<close>
  is then \<open>Object.prototype\<close>, no valid child: the render fails, and the playground does
  not compile with that target.
\<close>

lemma url_target_proto_fails_to_render:
  "mount compile decodeURIComponent None (Some (js ''__proto__'')) = Inl RenderError"
  by (simp add: mount_def load_from_url_def renders_def js_get_def TARGET_LABELS_def
      Object_prototype_functions_def Let_def setTarget_def)

text \<open>
  Apart from the inherited functions the target stays within the three keys: in every
  reachable state it is a key of \<open>TARGET_LABELS\<close> or the name of a function member of
  \<open>Object.prototype\<close>.
\<close>

lemma truthy_valid_child_js_get:
  assumes "truthy (js_get obj key)" and "valid_child (js_get obj key)"
  shows "key \<in> set (Object_keys obj) \<union> set Object_prototype_functions"
proof (cases "map_of obj key")
  case None
  with assms show ?thesis
    by (simp add: js_get_def split: if_splits)
next
  case (Some v)
  then have "(key, v) \<in> set obj"
    by (rule map_of_SomeD)
  then have "key \<in> fst ` set obj"
    by force
  then show ?thesis
    by (simp add: Object_keys_def)
qed

lemma target_compile_effect [simp]: "target (compile_effect compile prev st) = target st"
  by (simp add: compile_effect_def)

lemma target_load_from_url:
  assumes "load_from_url decodeURIComponent srcParam targetParam st = Inr st'"
  shows "target st' = target st \<or> truthy (js_get TARGET_LABELS (target st'))"
  using assms
  by (auto simp add: load_from_url_def setTarget_def setSource_def
      split: sum.splits option.splits if_splits)

lemma target_handler:
  assumes "offered ev"
  shows "target (handler ev st) = target st \<or> target (handler ev st) \<in> set target_tabs"
  using assms
  by (cases ev)
    (simp_all add: handleExampleChange_def handleTab_def Let_def setTarget_def setSource_def
      setCopied_def)

lemma reachable_target:
  assumes "reachable compile decodeURIComponent st"
  shows "target st \<in> set target_tabs \<union> set Object_prototype_functions"
  using assms
proof (induction rule: reachable.induct)
  case (mounted srcParam targetParam st)
  let ?st0 = "doCompile compile (source initial) (target initial) initial"
  from mounted obtain st1 where
    l: "load_from_url decodeURIComponent srcParam targetParam ?st0 = Inr st1"
    and r: "renders st1"
    and st: "st = compile_effect compile ?st0 st1"
    by (auto simp add: mount_def Let_def split: sum.splits if_splits)
  from r have v: "valid_child (js_get TARGET_LABELS (target st1))"
    by (simp add: renders_def)
  have "target ?st0 \<in> set target_tabs"
    by (simp add: initial_def target_tabs_def Object_keys_def TARGET_LABELS_def)
  with target_load_from_url [OF l] truthy_valid_child_js_get [OF _ v]
  have "target st1 \<in> set target_tabs \<union> set Object_prototype_functions"
    by (auto simp add: target_tabs_def)
  with st show ?case
    by simp
next
  case (event st ev st')
  with target_handler [of ev st] show ?case
    by (auto simp add: dispatch_def split: if_splits)
qed

subsection \<open>handleTab\<close>

lemma substring_prefix: "start \<le> length s \<Longrightarrow> substring s 0 start = take start s"
  by (simp add: substring_def Let_def)

lemma substring_from_suffix: "substring_from s finish = drop finish s"
  by (simp add: substring_from_def substring_def Let_def max_def min_def)

text \<open>
  C10. For an editor value \<open>val\<close> and a selection \<open>0 \<le> start \<le> end \<le> length val\<close>,
  pressing Tab sets the source to \<open>val[0..start) ++ "  " ++ val[end..)\<close>: the selected
  range is replaced with exactly two spaces, the new length is
  \<open>length val - (end - start) + 2\<close>, and the text before and after the selection is
  unchanged.
\<close>

theorem handleTab_replaces_selection:
  assumes "selectionStart ta \<le> selectionEnd ta"
    and "selectionEnd ta \<le> length (ta_value ta)"
  shows "\<exists>newVal.
           source (handleTab (js ''Tab'') ta st) = JString newVal
         \<and> newVal = take (selectionStart ta) (ta_value ta) @ [0x20, 0x20]
                      @ drop (selectionEnd ta) (ta_value ta)
         \<and> length newVal
             = length (ta_value ta) - (selectionEnd ta - selectionStart ta) + 2
         \<and> take (selectionStart ta) newVal = take (selectionStart ta) (ta_value ta)
         \<and> drop (selectionStart ta + 2) newVal = drop (selectionEnd ta) (ta_value ta)"
proof -
  let ?s = "selectionStart ta" and ?e = "selectionEnd ta" and ?v = "ta_value ta"
  have spaces: "js ''  '' = [0x20, 0x20]"
    by (simp add: js_def code_unit_of_def)
  have le: "?s \<le> length ?v"
    using assms by simp
  have src: "source (handleTab (js ''Tab'') ta st)
               = JString (take ?s ?v @ [0x20, 0x20] @ drop ?e ?v)"
    by (simp add: handleTab_def Let_def substring_prefix [OF le] substring_from_suffix spaces)
  have len: "length (take ?s ?v @ [0x20, 0x20 :: code_unit] @ drop ?e ?v)
               = length ?v - (?e - ?s) + 2"
    using assms by simp
  have pre: "take ?s (take ?s ?v @ [0x20, 0x20 :: code_unit] @ drop ?e ?v) = take ?s ?v"
    using le by simp
  have post: "drop (?s + 2) (take ?s ?v @ [0x20, 0x20 :: code_unit] @ drop ?e ?v) = drop ?e ?v"
    using le by (simp add: min_absorb2)
  from src len pre post show ?thesis
    by blast
qed

theorem handleTab_replaces_selection_witness:
  "selectionStart \<lparr>ta_value = js ''fn add():'', selectionStart = 2, selectionEnd = 6\<rparr>
     \<le> selectionEnd \<lparr>ta_value = js ''fn add():'', selectionStart = 2, selectionEnd = 6\<rparr>
   \<and> selectionEnd \<lparr>ta_value = js ''fn add():'', selectionStart = 2, selectionEnd = 6\<rparr>
     \<le> length (ta_value \<lparr>ta_value = js ''fn add():'', selectionStart = 2, selectionEnd = 6\<rparr>)
   \<and> source (handleTab (js ''Tab'')
        \<lparr>ta_value = js ''fn add():'', selectionStart = 2, selectionEnd = 6\<rparr> initial)
     = JString (js ''fn  ():'')"
  using handleTab_replaces_selection
    [of "\<lparr>ta_value = js ''fn add():'', selectionStart = 2, selectionEnd = 6\<rparr>" initial]
  by (simp add: js_def code_unit_of_def)

end
